theory Spec2Isabelle
  imports Main "HOL-Library.Word" "HOL-Library.Multiset"
begin

unbundle bit_operations_syntax

section \<open>Values\<close>

text \<open>
  A UUID is a 128-bit value; \<open>str(uuid)\<close> is its 8-4-4-4-12 hexadecimal text.
  The identifier columns and the identifiers on the wire are text and are compared as text.
  An instant of a clock (Python's \<open>datetime.now()\<close>, the database's
  \<open>CURRENT_TIMESTAMP\<close>, a value of a timestamp column) is a point on one time axis.
\<close>

type_synonym uuid = "128 word"
type_synonym datetime = nat

definition hex_digit :: "nat \<Rightarrow> char" where
  "hex_digit n = ''0123456789abcdef'' ! (n mod 16)"

definition uuid_hex :: "uuid \<Rightarrow> string" where
  "uuid_hex u = map (\<lambda>i. hex_digit (unat (drop_bit (4 * (31 - i)) u AND 15))) [0..<32]"

definition str_uuid :: "uuid \<Rightarrow> string" where
  "str_uuid u =
     (let h = uuid_hex u
      in take 8 h @ ''-'' @ take 4 (drop 8 h) @ ''-'' @ take 4 (drop 12 h) @ ''-''
         @ take 4 (drop 16 h) @ ''-'' @ drop 20 h)"

text \<open>
  A timestamp travelling as text: \<open>IsoText d\<close> is a text that denotes the instant \<open>d\<close>
  (what \<open>d.isoformat()\<close> produces and what the database's timestamp input reads back as
  \<open>d\<close>); \<open>OtherText s\<close> is a text \<open>s\<close> that the timestamp input rejects.
\<close>

datatype ts_text = IsoText datetime | OtherText string

definition isoformat :: "datetime \<Rightarrow> ts_text" where
  "isoformat d = IsoText d"

fun timestamp_in :: "ts_text \<Rightarrow> datetime option" where
  "timestamp_in (IsoText d) = Some d"
| "timestamp_in (OtherText s) = None"

text \<open>A value found under a timestamp key of a result dictionary.\<close>

datatype ts_val = TsNone | TsDatetime datetime | TsStr ts_text

fun ts_truthy :: "ts_val \<Rightarrow> bool" where
  "ts_truthy TsNone = False"
| "ts_truthy (TsDatetime d) = True"
| "ts_truthy (TsStr (IsoText d)) = True"
| "ts_truthy (TsStr (OtherText s)) = (s \<noteq> [])"

fun is_text :: "ts_val \<Rightarrow> bool" where
  "is_text (TsStr t) = True"
| "is_text v = False"

fun is_native :: "ts_val \<Rightarrow> bool" where
  "is_native (TsDatetime d) = True"
| "is_native v = False"

fun instant_of :: "ts_val \<Rightarrow> datetime option" where
  "instant_of (TsDatetime d) = Some d"
| "instant_of (TsStr t) = timestamp_in t"
| "instant_of TsNone = None"

datatype jval = JNull | JStr string | JInt int | JTimestamp datetime

type_synonym json_object = "(string \<times> jval) list"

section \<open>Exceptions\<close>

datatype failure = HTTPException nat string | KeyError string | DatabaseError string

definition status_str :: "nat \<Rightarrow> string" where
  "status_str c = [hex_digit (c div 100 mod 10), hex_digit (c div 10 mod 10), hex_digit (c mod 10)]"

text \<open>
  \<open>str(e)\<close>: an HTTPException prints as its status code, a colon and its detail; a KeyError
  as the quoted key; a database error as its message.
\<close>

fun str_exc :: "failure \<Rightarrow> string" where
  "str_exc (HTTPException c d) = status_str c @ '': '' @ d"
| "str_exc (KeyError k) = CHR 0x27 # k @ [CHR 0x27]"
| "str_exc (DatabaseError m) = m"

fun starts_with :: "string \<Rightarrow> string \<Rightarrow> bool" where
  "starts_with [] s = True"
| "starts_with (p # ps) [] = False"
| "starts_with (p # ps) (c # cs) = (p = c \<and> starts_with ps cs)"

text \<open>Python's \<open>needle in s\<close> on strings.\<close>

fun contains_str :: "string \<Rightarrow> string \<Rightarrow> bool" where
  "contains_str p [] = starts_with p []"
| "contains_str p (c # cs) = (starts_with p (c # cs) \<or> contains_str p cs)"

text \<open>
  The handlers' \<open>except Exception as e\<close> clauses: with a marker text the exception is
  raised again when its text holds the marker and is wrapped into a 500 otherwise; without
  a marker it is always wrapped.
\<close>

definition reraise_or_500 :: "string \<Rightarrow> failure \<Rightarrow> failure" where
  "reraise_or_500 marker e =
     (if contains_str marker (str_exc e) then e else HTTPException 500 (str_exc e))"

definition wrap_500 :: "failure \<Rightarrow> failure" where
  "wrap_500 e = HTTPException 500 (str_exc e)"

section \<open>Request bodies\<close>

record ScrewNote =
  sn_id :: "string option"
  sn_file_path :: string
  sn_line_number :: int
  sn_author :: string
  sn_timestamp :: "string option"
  sn_comment :: string
  sn_description :: "string option"
  sn_cwe :: "string option"
  sn_state :: string
  sn_severity :: "string option"
  sn_source :: string
  sn_import_metadata :: "json_object option"
  sn_project_name :: string
  sn_user_id :: string
  sn_replies :: "json_object list option"

text \<open>
  The ScrewNote a request body becomes when it gives the six required fields only: every
  other field takes the default of the class.
\<close>

definition ScrewNote_required ::
  "string \<Rightarrow> int \<Rightarrow> string \<Rightarrow> string \<Rightarrow> string \<Rightarrow> string \<Rightarrow> ScrewNote" where
  "ScrewNote_required file_path line_number author comment project_name user_id =
     \<lparr>sn_id = None, sn_file_path = file_path, sn_line_number = line_number,
      sn_author = author, sn_timestamp = None, sn_comment = comment,
      sn_description = None, sn_cwe = None, sn_state = ''todo'', sn_severity = None,
      sn_source = ''native'', sn_import_metadata = None, sn_project_name = project_name,
      sn_user_id = user_id, sn_replies = Some []\<rparr>"

record ScrewReply =
  sr_id :: "string option"
  sr_parent_id :: string
  sr_author :: string
  sr_timestamp :: "ts_text option"
  sr_comment :: string
  sr_user_id :: string

text \<open>
  What a dictionary read from JSON holds under one key: nothing (the key is absent), the
  JSON null (Python's None), or a value.
\<close>

datatype 'a json_key = Absent | Null | Given 'a

text \<open>\<open>d[k]\<close>: KeyError for an absent key, None for null.\<close>

fun dict_item :: "string \<Rightarrow> 'a json_key \<Rightarrow> failure + 'a option" where
  "dict_item k Absent = Inl (KeyError k)"
| "dict_item k Null = Inr None"
| "dict_item k (Given v) = Inr (Some v)"

text \<open>\<open>d.get(k, default)\<close>: the default for an absent key only; None for null.\<close>

fun dict_get_default :: "'a json_key \<Rightarrow> 'a option \<Rightarrow> 'a option" where
  "dict_get_default Absent d = d"
| "dict_get_default Null d = None"
| "dict_get_default (Given v) d = Some v"

text \<open>\<open>d.get(k)\<close>\<close>

definition dict_get :: "'a json_key \<Rightarrow> 'a option" where
  "dict_get x = dict_get_default x None"

text \<open>
  One element of the \<open>notes\<close> list of a bulk replace: a dictionary, of which the handler
  reads these keys. A value that is not null has the type of its column.
\<close>

record note_data =
  nd_id :: "string json_key"
  nd_file_path :: "string json_key"
  nd_line_number :: "int json_key"
  nd_author :: "string json_key"
  nd_user_id :: "string json_key"
  nd_timestamp :: "ts_text json_key"
  nd_comment :: "string json_key"
  nd_description :: "string json_key"
  nd_cwe :: "string json_key"
  nd_state :: "string json_key"

text \<open>
  What the outside world supplies to one request (to one iteration of the loop of the bulk
  replace): a generated UUID, the two readings of \<open>datetime.now()\<close> in the order the
  handler takes them, and the database's \<open>CURRENT_TIMESTAMP\<close>.
\<close>

record readings =
  fresh_uuid :: uuid
  now1 :: datetime
  now2 :: datetime
  current_timestamp :: datetime

section \<open>The tables\<close>

record project_row =
  p_id :: nat
  p_name :: string
  p_path :: "string option"

record note_row =
  n_id :: string
  n_project_id :: "nat option"
  n_project_name :: "string option"
  n_file_path :: "string option"
  n_line_number :: "int option"
  n_author :: "string option"
  n_user_id :: "string option"
  n_timestamp :: "datetime option"
  n_comment :: "string option"
  n_description :: "string option"
  n_cwe :: "string option"
  n_state :: "string option"
  n_severity :: "string option"
  n_source :: string
  n_import_metadata :: "json_object option"
  n_created_at :: "datetime option"
  n_updated_at :: "datetime option"

record reply_row =
  r_id :: string
  r_parent_id :: string
  r_author :: string
  r_user_id :: string
  r_timestamp :: datetime
  r_comment :: string

record database =
  tbl_projects :: "project_row list"
  tbl_notes :: "note_row list"
  tbl_replies :: "reply_row list"

definition empty_database :: database where
  "empty_database = \<lparr>tbl_projects = [], tbl_notes = [], tbl_replies = []\<rparr>"

section \<open>The statements on the tables\<close>

text \<open>
  Modelled from the spec: the declarations of the three tables, which the source does not
  hold. The spec gives their columns, a unique project name, a unique identifier for notes
  and for replies, and the references \<open>notes.project_id\<close> to \<open>projects.id\<close> and
  \<open>replies.parent_id\<close> to \<open>notes.id\<close>. An INSERT leaves a column it does not name at the
  column's default: the source documents a generated identifier for notes, \<open>'native'\<close> for
  \<open>source\<close> and \<open>CURRENT_TIMESTAMP\<close> for \<open>updated_at\<close>; \<open>created_at\<close> is taken to
  default to \<open>CURRENT_TIMESTAMP\<close> as well, the project identifier comes from a sequence,
  and every other column defaults to NULL. Every column but an identifier takes NULL.
  Removing a note leaves its replies in place. A statement that breaks a constraint or
  carries a value that does not fit its column raises a database error and changes
  nothing; every statement is committed on its own.
\<close>

text \<open>
  Modelled from the spec: the type of \<open>line_number\<close>, which the source does not hold; the
  spec calls it an integer, taken here as a 32-bit INTEGER column. The values a statement
  writes into the notes table must fit their columns: besides the line number, the source
  declares \<open>cwe VARCHAR(20)\<close>, \<open>severity VARCHAR(10)\<close> and \<open>source VARCHAR(20)\<close>. The
  result is the error the statement raises, if any.
\<close>

definition check_note_values ::
  "int option \<Rightarrow> string option \<Rightarrow> string option \<Rightarrow> string \<Rightarrow> failure option" where
  "check_note_values line_number cwe severity source =
     (if (case line_number of None \<Rightarrow> False
          | Some l \<Rightarrow> l < - 2147483648 \<or> 2147483647 < l)
      then Some (DatabaseError ''integer out of range'')
      else if (case cwe of None \<Rightarrow> False | Some c \<Rightarrow> 20 < length c)
      then Some (DatabaseError ''value too long for type character varying(20)'')
      else if (case severity of None \<Rightarrow> False | Some v \<Rightarrow> 10 < length v)
      then Some (DatabaseError ''value too long for type character varying(10)'')
      else if 20 < length source
      then Some (DatabaseError ''value too long for type character varying(20)'')
      else None)"

definition next_project_id :: "database \<Rightarrow> nat" where
  "next_project_id db = Suc (foldr max (map p_id (tbl_projects db)) 0)"

definition insert_project :: "database \<Rightarrow> string \<Rightarrow> string option \<Rightarrow> failure + (database \<times> nat)" where
  "insert_project db name path =
     (if name \<in> set (map p_name (tbl_projects db))
      then Inl (DatabaseError ''duplicate key value violates unique constraint on projects.name'')
      else Inr (db\<lparr>tbl_projects := tbl_projects db
                     @ [\<lparr>p_id = next_project_id db, p_name = name, p_path = path\<rparr>]\<rparr>,
                next_project_id db))"

text \<open>\<open>INSERT INTO projects (name) VALUES (...) ON CONFLICT (name) DO NOTHING\<close>\<close>

definition insert_project_do_nothing :: "database \<Rightarrow> string \<Rightarrow> database" where
  "insert_project_do_nothing db name =
     (case insert_project db name None of Inl e \<Rightarrow> db | Inr (db', i) \<Rightarrow> db')"

definition insert_note :: "database \<Rightarrow> note_row \<Rightarrow> failure + database" where
  "insert_note db row =
     (case check_note_values (n_line_number row) (n_cwe row) (n_severity row) (n_source row) of
        Some e \<Rightarrow> Inl e
      | None \<Rightarrow>
         (if n_id row \<in> set (map n_id (tbl_notes db))
          then Inl (DatabaseError ''duplicate key value violates unique constraint on notes.id'')
          else if (case n_project_id row of None \<Rightarrow> False
                   | Some i \<Rightarrow> i \<notin> set (map p_id (tbl_projects db)))
          then Inl (DatabaseError
                      ''insert on notes violates foreign key constraint on project_id'')
          else Inr (db\<lparr>tbl_notes := tbl_notes db @ [row]\<rparr>)))"

definition insert_reply :: "database \<Rightarrow> reply_row \<Rightarrow> failure + database" where
  "insert_reply db row =
     (if r_id row \<in> set (map r_id (tbl_replies db))
      then Inl (DatabaseError ''duplicate key value violates unique constraint on replies.id'')
      else if r_parent_id row \<notin> set (map n_id (tbl_notes db))
      then Inl (DatabaseError ''insert on replies violates foreign key constraint on parent_id'')
      else Inr (db\<lparr>tbl_replies := tbl_replies db @ [row]\<rparr>))"

text \<open>\<open>DELETE FROM notes WHERE project_name = ...\<close>: a NULL project name matches no name.\<close>

definition delete_notes_by_project_name :: "database \<Rightarrow> string \<Rightarrow> database" where
  "delete_notes_by_project_name db name =
     db\<lparr>tbl_notes := filter (\<lambda>n. n_project_name n \<noteq> Some name) (tbl_notes db)\<rparr>"

subsection \<open>ORDER BY\<close>

fun place_by :: "('a \<Rightarrow> 'a \<Rightarrow> bool) \<Rightarrow> 'a \<Rightarrow> 'a list \<Rightarrow> 'a list" where
  "place_by le x [] = [x]"
| "place_by le x (y # ys) = (if le x y then x # y # ys else y # place_by le x ys)"

definition order_by :: "('a \<Rightarrow> 'a \<Rightarrow> bool) \<Rightarrow> 'a list \<Rightarrow> 'a list" where
  "order_by le xs = foldr (place_by le) xs []"

text \<open>Ascending order puts NULL last, descending order puts NULL first.\<close>

fun asc_nulls_last :: "'a::linorder option \<Rightarrow> 'a option \<Rightarrow> bool" where
  "asc_nulls_last a None = True"
| "asc_nulls_last None (Some y) = False"
| "asc_nulls_last (Some x) (Some y) = (x \<le> y)"

definition desc_nulls_first :: "'a::linorder option \<Rightarrow> 'a option \<Rightarrow> bool" where
  "desc_nulls_first a b = asc_nulls_last b a"

subsection \<open>Notes with their replies\<close>

text \<open>
  \<open>LEFT JOIN replies r ON n.id = r.parent_id\<close>, for one note: its replies, or one row with
  no reply when it has none.
\<close>

definition left_join_replies :: "reply_row list \<Rightarrow> note_row \<Rightarrow> reply_row option list" where
  "left_join_replies rs n =
     (case filter (\<lambda>r. r_parent_id r = n_id n) rs of [] \<Rightarrow> [None] | ms \<Rightarrow> map Some ms)"

text \<open>
  \<open>json_agg(...) FILTER (WHERE r.id IS NOT NULL)\<close>: the objects of the rows that hold a
  reply, NULL when no row does.
\<close>

definition json_agg_filter ::
  "(reply_row \<Rightarrow> json_object) \<Rightarrow> reply_row option list \<Rightarrow> json_object list option" where
  "json_agg_filter build rows =
     (case concat (map (\<lambda>ro. case ro of None \<Rightarrow> [] | Some r \<Rightarrow> [build r]) rows) of
        [] \<Rightarrow> None
      | js \<Rightarrow> Some js)"

definition coalesce :: "'a option \<Rightarrow> 'a option \<Rightarrow> 'a option" where
  "coalesce a b = (case a of Some x \<Rightarrow> Some x | None \<Rightarrow> b)"

text \<open>The two \<open>json_build_object\<close> calls of the source: without and with \<open>user_id\<close>.\<close>

definition reply_object :: "reply_row \<Rightarrow> json_object" where
  "reply_object r =
     [(''id'', JStr (r_id r)), (''parent_id'', JStr (r_parent_id r)),
      (''author'', JStr (r_author r)), (''timestamp'', JTimestamp (r_timestamp r)),
      (''comment'', JStr (r_comment r))]"

definition reply_object_user :: "reply_row \<Rightarrow> json_object" where
  "reply_object_user r =
     [(''id'', JStr (r_id r)), (''parent_id'', JStr (r_parent_id r)),
      (''author'', JStr (r_author r)), (''user_id'', JStr (r_user_id r)),
      (''timestamp'', JTimestamp (r_timestamp r)), (''comment'', JStr (r_comment r))]"

definition replies_column ::
  "(reply_row \<Rightarrow> json_object) \<Rightarrow> database \<Rightarrow> note_row \<Rightarrow> json_object list option" where
  "replies_column build db n =
     coalesce (json_agg_filter build (left_join_replies (tbl_replies db) n)) (Some [])"

text \<open>
  A row of a result as the cursor hands it over (\<open>dict_row\<close>): the columns of the note and
  the \<open>replies\<close> column; a timestamp column is a native datetime or None.
\<close>

record note_dict =
  d_id :: string
  d_project_id :: "nat option"
  d_project_name :: "string option"
  d_file_path :: "string option"
  d_line_number :: "int option"
  d_author :: "string option"
  d_user_id :: "string option"
  d_timestamp :: ts_val
  d_comment :: "string option"
  d_description :: "string option"
  d_cwe :: "string option"
  d_state :: "string option"
  d_severity :: "string option"
  d_source :: string
  d_import_metadata :: "json_object option"
  d_created_at :: ts_val
  d_updated_at :: ts_val
  d_replies :: "json_object list option"

definition native :: "datetime option \<Rightarrow> ts_val" where
  "native c = (case c of None \<Rightarrow> TsNone | Some d \<Rightarrow> TsDatetime d)"

definition dict_row :: "note_row \<Rightarrow> json_object list option \<Rightarrow> note_dict" where
  "dict_row n rs =
     \<lparr>d_id = n_id n, d_project_id = n_project_id n, d_project_name = n_project_name n,
      d_file_path = n_file_path n, d_line_number = n_line_number n, d_author = n_author n,
      d_user_id = n_user_id n, d_timestamp = native (n_timestamp n),
      d_comment = n_comment n, d_description = n_description n, d_cwe = n_cwe n,
      d_state = n_state n, d_severity = n_severity n, d_source = n_source n,
      d_import_metadata = n_import_metadata n, d_created_at = native (n_created_at n),
      d_updated_at = native (n_updated_at n), d_replies = rs\<rparr>"

text \<open>
  \<open>if d.get(k): d[k] = d[k].isoformat()\<close>. The value comes from a timestamp column, so it
  is a datetime or None.
\<close>

definition iso_if_set :: "ts_val \<Rightarrow> ts_val" where
  "iso_if_set v =
     (if ts_truthy v then (case v of TsDatetime d \<Rightarrow> TsStr (isoformat d) | w \<Rightarrow> w) else v)"

section \<open>The read handlers\<close>

text \<open>
  A handler is modelled from the point where \<open>get_db_connection\<close> has returned a
  connection; its result is the value it returns or the exception it raises.
\<close>

text \<open>
  \<open>FROM notes n JOIN projects p ON n.project_id = p.id ... WHERE p.name = ...\<close>: the note
  rows that a project row of that name is joined to. A NULL \<open>project_id\<close> joins no row.
\<close>

definition in_project :: "database \<Rightarrow> string \<Rightarrow> note_row \<Rightarrow> bool" where
  "in_project db name n =
     list_ex (\<lambda>p. n_project_id n = Some (p_id p) \<and> p_name p = name) (tbl_projects db)"

text \<open>
  The query of \<open>get_project_notes\<close>. \<open>GROUP BY n.id, p.name\<close> groups on the primary key
  of the notes, so there is one row per note; \<open>p.name as project_name\<close> comes after
  \<open>n.*\<close> and is the value the dictionary keeps under \<open>project_name\<close>.
\<close>

definition select_project_notes :: "database \<Rightarrow> string \<Rightarrow> note_dict list" where
  "select_project_notes db name =
     map (\<lambda>n. (dict_row n (replies_column reply_object db n))\<lparr>d_project_name := Some name\<rparr>)
       (order_by (\<lambda>a b. desc_nulls_first (n_timestamp a) (n_timestamp b))
          (filter (in_project db name) (tbl_notes db)))"

text \<open>The identifier is text already, so \<open>str\<close> leaves it as it is.\<close>

definition get_project_notes :: "database \<Rightarrow> string \<Rightarrow> failure + note_dict list" where
  "get_project_notes db project_name =
     Inr (map (\<lambda>note_dict. note_dict\<lparr>d_timestamp := iso_if_set (d_timestamp note_dict),
                                      d_updated_at := iso_if_set (d_updated_at note_dict)\<rparr>)
            (select_project_notes db project_name))"

text \<open>
  What \<open>get_project_notes\<close> returns for one note row: the row of the query, then the loop
  of the handler over it.
\<close>

definition project_note_dict :: "database \<Rightarrow> string \<Rightarrow> note_row \<Rightarrow> note_dict" where
  "project_note_dict db name n =
     (dict_row n (replies_column reply_object db n))
       \<lparr>d_project_name := Some name,
        d_timestamp := iso_if_set (native (n_timestamp n)),
        d_updated_at := iso_if_set (native (n_updated_at n))\<rparr>"

definition get_file_notes :: "database \<Rightarrow> string \<Rightarrow> string \<Rightarrow> failure + note_dict list" where
  "get_file_notes db project_name path =
     Inr (map (\<lambda>n. dict_row n (replies_column reply_object_user db n))
            (order_by (\<lambda>a b. asc_nulls_last (n_line_number a) (n_line_number b))
               (filter (\<lambda>n. n_project_name n = Some project_name
                             \<and> n_file_path n = Some path)
                  (tbl_notes db))))"

definition get_line_notes :: "database \<Rightarrow> string \<Rightarrow> string \<Rightarrow> int \<Rightarrow> failure + note_dict list" where
  "get_line_notes db project_name path line =
     Inr (map (\<lambda>n. dict_row n (replies_column reply_object_user db n))
            (order_by (\<lambda>a b. asc_nulls_last (n_created_at a) (n_created_at b))
               (filter (\<lambda>n. n_project_name n = Some project_name
                             \<and> n_file_path n = Some path \<and> n_line_number n = Some line)
                  (tbl_notes db))))"

definition get_note_by_id :: "database \<Rightarrow> string \<Rightarrow> failure + note_dict" where
  "get_note_by_id db note_id =
     (case filter (\<lambda>n. n_id n = note_id) (tbl_notes db) of
        [] \<Rightarrow> Inl (reraise_or_500 ''Note not found'' (HTTPException 404 ''Note not found''))
      | n # rest \<Rightarrow>
          (let note_dict = dict_row n (replies_column reply_object db n)
           in Inr (note_dict\<lparr>d_timestamp := iso_if_set (d_timestamp note_dict),
                             d_updated_at := iso_if_set (d_updated_at note_dict),
                             d_created_at := iso_if_set (d_created_at note_dict)\<rparr>)))"

section \<open>The write handlers\<close>

text \<open>
  The row \<open>create_note\<close> inserts. The INSERT names neither \<open>id\<close>, \<open>project_name\<close>,
  \<open>user_id\<close> nor \<open>created_at\<close>. An empty \<open>import_metadata\<close> is falsy and stored as NULL.
\<close>

definition create_row :: "readings \<Rightarrow> nat \<Rightarrow> ScrewNote \<Rightarrow> note_row" where
  "create_row env project_id note =
     \<lparr>n_id = str_uuid (fresh_uuid env), n_project_id = Some project_id,
      n_project_name = None, n_file_path = Some (sn_file_path note),
      n_line_number = Some (sn_line_number note), n_author = Some (sn_author note),
      n_user_id = None, n_timestamp = Some (now1 env), n_comment = Some (sn_comment note),
      n_description = sn_description note, n_cwe = sn_cwe note,
      n_state = Some (sn_state note),
      n_severity = sn_severity note, n_source = sn_source note,
      n_import_metadata =
        (case sn_import_metadata note of None \<Rightarrow> None
         | Some m \<Rightarrow> if m = [] then None else Some m),
      n_created_at = Some (current_timestamp env), n_updated_at = Some (now2 env)\<rparr>"

definition create_note ::
  "database \<Rightarrow> readings \<Rightarrow> ScrewNote \<Rightarrow> database \<times> (failure + ScrewNote)" where
  "create_note db env note =
     (case (case find (\<lambda>p. p_name p = sn_project_name note \<and> p_path p = Some ''/'')
                  (tbl_projects db) of
              None \<Rightarrow> insert_project db (sn_project_name note) (Some ''/'')
            | Some project_row \<Rightarrow> Inr (db, p_id project_row)) of
        Inl e \<Rightarrow> (db, Inl (wrap_500 e))
      | Inr (db1, project_id) \<Rightarrow>
          (case insert_note db1 (create_row env project_id note) of
             Inl e \<Rightarrow> (db1, Inl (wrap_500 e))
           | Inr db2 \<Rightarrow> (db2, Inr (note\<lparr>sn_id := Some (str_uuid (fresh_uuid env))\<rparr>))))"

definition update_row :: "datetime \<Rightarrow> ScrewNote \<Rightarrow> note_row \<Rightarrow> note_row" where
  "update_row now note n =
     n\<lparr>n_file_path := Some (sn_file_path note),
       n_line_number := Some (sn_line_number note),
       n_author := Some (sn_author note), n_comment := Some (sn_comment note),
       n_description := sn_description note, n_cwe := sn_cwe note,
       n_state := Some (sn_state note), n_severity := sn_severity note,
       n_source := sn_source note, n_updated_at := Some now\<rparr>"

definition update_note ::
  "database \<Rightarrow> readings \<Rightarrow> string \<Rightarrow> ScrewNote \<Rightarrow> database \<times> (failure + ScrewNote)" where
  "update_note db env note_id note =
     (case check_note_values (Some (sn_line_number note)) (sn_cwe note) (sn_severity note)
             (sn_source note) of
        Some e \<Rightarrow> (db, Inl (reraise_or_500 ''Note not found'' e))
      | None \<Rightarrow>
         (let rowcount = length (filter (\<lambda>n. n_id n = note_id) (tbl_notes db));
              db' = db\<lparr>tbl_notes :=
                        map (\<lambda>n. if n_id n = note_id
                                  then update_row (current_timestamp env) note n else n)
                          (tbl_notes db)\<rparr>
          in if rowcount = 0
             then (db', Inl (reraise_or_500 ''Note not found''
                               (HTTPException 404 ''Note not found'')))
             else (db', Inr (note\<lparr>sn_id := Some note_id\<rparr>))))"

text \<open>\<open>not x\<close> on an optional string: None and the empty string are falsy.\<close>

definition str_truthy :: "string option \<Rightarrow> bool" where
  "str_truthy x = (case x of None \<Rightarrow> False | Some s \<Rightarrow> s \<noteq> [])"

definition ts_text_truthy :: "ts_text option \<Rightarrow> bool" where
  "ts_text_truthy x = (case x of None \<Rightarrow> False | Some t \<Rightarrow> ts_truthy (TsStr t))"

text \<open>
  The parameters of the INSERT of \<open>create_reply\<close> as a row: the parent is the one of the
  path, the timestamp text goes through the timestamp input.
\<close>

definition reply_row_of :: "string \<Rightarrow> ScrewReply \<Rightarrow> failure + reply_row" where
  "reply_row_of parent_id reply =
     (case sr_id reply of
        None \<Rightarrow> Inl (DatabaseError ''null value in column id of replies'')
      | Some i \<Rightarrow>
          (case sr_timestamp reply of
             None \<Rightarrow> Inl (DatabaseError ''null value in column timestamp of replies'')
           | Some t \<Rightarrow>
               (case timestamp_in t of
                  None \<Rightarrow> Inl (DatabaseError ''invalid input syntax for type timestamp'')
                | Some d \<Rightarrow>
                    Inr \<lparr>r_id = i, r_parent_id = parent_id, r_author = sr_author reply,
                         r_user_id = sr_user_id reply, r_timestamp = d,
                         r_comment = sr_comment reply\<rparr>)))"

definition create_reply ::
  "database \<Rightarrow> readings \<Rightarrow> string \<Rightarrow> ScrewReply \<Rightarrow> database \<times> (failure + ScrewReply)" where
  "create_reply db env parent_id reply =
     (if filter (\<lambda>n. n_id n = parent_id) (tbl_notes db) = []
      then (db, Inl (reraise_or_500 ''Parent note not found''
                       (HTTPException 404 ''Parent note not found'')))
      else
        (let reply1 = (if \<not> str_truthy (sr_id reply)
                       then reply\<lparr>sr_id := Some (str_uuid (fresh_uuid env))\<rparr> else reply);
             reply2 = (if \<not> ts_text_truthy (sr_timestamp reply1)
                       then reply1\<lparr>sr_timestamp := Some (isoformat (now1 env))\<rparr> else reply1)
         in case reply_row_of parent_id reply2 of
              Inl e \<Rightarrow> (db, Inl (reraise_or_500 ''Parent note not found'' e))
            | Inr row \<Rightarrow>
                (case insert_reply db row of
                   Inl e \<Rightarrow> (db, Inl (reraise_or_500 ''Parent note not found'' e))
                 | Inr db' \<Rightarrow> (db', Inr reply2))))"

text \<open>
  The row one iteration of \<open>replace_all_notes\<close> inserts. The parameters are built in the
  order of the source; a required key that is absent raises KeyError there. A timestamp
  text goes through the timestamp input, and a null identifier breaks the primary key. The
  INSERT names neither \<open>project_id\<close>, \<open>severity\<close>, \<open>source\<close>, \<open>import_metadata\<close>,
  \<open>created_at\<close> nor \<open>updated_at\<close>.
\<close>

definition replace_row :: "readings \<Rightarrow> string \<Rightarrow> note_data \<Rightarrow> failure + note_row" where
  "replace_row env project_name note_data =
     (case dict_item ''file_path'' (nd_file_path note_data) of
        Inl e \<Rightarrow> Inl e
      | Inr file_path \<Rightarrow>
     (case dict_item ''line_number'' (nd_line_number note_data) of
        Inl e \<Rightarrow> Inl e
      | Inr line_number \<Rightarrow>
     (case dict_item ''author'' (nd_author note_data) of
        Inl e \<Rightarrow> Inl e
      | Inr author \<Rightarrow>
     (case dict_item ''comment'' (nd_comment note_data) of
        Inl e \<Rightarrow> Inl e
      | Inr comment \<Rightarrow>
     (case (case dict_get_default (nd_timestamp note_data) (Some (isoformat (now1 env))) of
              None \<Rightarrow> Some None
            | Some t \<Rightarrow> (case timestamp_in t of None \<Rightarrow> None | Some d \<Rightarrow> Some (Some d))) of
        None \<Rightarrow> Inl (DatabaseError ''invalid input syntax for type timestamp'')
      | Some ts \<Rightarrow>
     (case dict_get_default (nd_id note_data) (Some (str_uuid (fresh_uuid env))) of
        None \<Rightarrow> Inl (DatabaseError ''null value in column id of notes'')
      | Some i \<Rightarrow>
          Inr \<lparr>n_id = i, n_project_id = None, n_project_name = Some project_name,
               n_file_path = file_path, n_line_number = line_number, n_author = author,
               n_user_id = dict_get_default (nd_user_id note_data) author,
               n_timestamp = ts, n_comment = comment,
               n_description = dict_get (nd_description note_data),
               n_cwe = dict_get (nd_cwe note_data),
               n_state = dict_get_default (nd_state note_data) (Some ''todo''),
               n_severity = None, n_source = ''native'', n_import_metadata = None,
               n_created_at = Some (current_timestamp env),
               n_updated_at = Some (current_timestamp env)\<rparr>))))))"

text \<open>The loop over the notes; \<open>env i\<close> is what the world supplies to iteration \<open>i\<close>.\<close>

fun insert_all ::
  "database \<Rightarrow> (nat \<Rightarrow> readings) \<Rightarrow> nat \<Rightarrow> string \<Rightarrow> note_data list \<Rightarrow> database \<times> (failure + unit)" where
  "insert_all db env i project_name [] = (db, Inr ())"
| "insert_all db env i project_name (note_data # rest) =
     (case replace_row (env i) project_name note_data of
        Inl e \<Rightarrow> (db, Inl e)
      | Inr row \<Rightarrow>
          (case insert_note db row of
             Inl e \<Rightarrow> (db, Inl e)
           | Inr db' \<Rightarrow> insert_all db' env (Suc i) project_name rest))"

record replace_response =
  resp_success :: bool
  resp_count :: nat

definition replace_all_notes ::
  "database \<Rightarrow> (nat \<Rightarrow> readings) \<Rightarrow> string \<Rightarrow> (string \<rightharpoonup> note_data list)
     \<Rightarrow> database \<times> (failure + replace_response)" where
  "replace_all_notes db env project_name data =
     (let db1 = delete_notes_by_project_name db project_name;
          db2 = insert_project_do_nothing db1 project_name;
          note_list = (case data ''notes'' of None \<Rightarrow> [] | Some ns \<Rightarrow> ns)
      in case insert_all db2 env 0 project_name note_list of
           (db3, Inl e) \<Rightarrow> (db3, Inl (wrap_500 e))
         | (db3, Inr u) \<Rightarrow> (db3, Inr \<lparr>resp_success = True, resp_count = length note_list\<rparr>))"

section \<open>Concrete requests\<close>

text \<open>
  The scenario of the spec: a note for project demo, file a.py, line 10, by alice, with the
  two required fields the scenario leaves out (\<open>project_name\<close> is its project,
  \<open>user_id\<close> is alice).
\<close>

definition demo_note :: ScrewNote where
  "demo_note = ScrewNote_required ''a.py'' 10 ''alice'' ''check this'' ''demo'' ''alice''"

definition demo_env :: readings where
  "demo_env = \<lparr>fresh_uuid = 1, now1 = 100, now2 = 101, current_timestamp = 102\<rparr>"

definition later_env :: readings where
  "later_env = \<lparr>fresh_uuid = 2, now1 = 200, now2 = 201, current_timestamp = 202\<rparr>"

definition reply_env :: readings where
  "reply_env = \<lparr>fresh_uuid = 3, now1 = 300, now2 = 301, current_timestamp = 302\<rparr>"

definition demo_data :: note_data where
  "demo_data =
     \<lparr>nd_id = Absent, nd_file_path = Given ''a.py'', nd_line_number = Given 10,
      nd_author = Given ''alice'', nd_user_id = Absent, nd_timestamp = Absent,
      nd_comment = Given ''check this'', nd_description = Absent, nd_cwe = Absent,
      nd_state = Absent\<rparr>"

definition given_data :: note_data where
  "given_data =
     \<lparr>nd_id = Given ''n-2'', nd_file_path = Given ''b.py'', nd_line_number = Given 7,
      nd_author = Given ''bob'', nd_user_id = Given ''u-bob'',
      nd_timestamp = Given (IsoText 55), nd_comment = Given ''look here'',
      nd_description = Given ''overflow'', nd_cwe = Given ''CWE-120'',
      nd_state = Given ''vulnerable''\<rparr>"

text \<open>A note that gives \<open>user_id\<close>, \<open>timestamp\<close> and \<open>state\<close> as null.\<close>

definition null_data :: note_data where
  "null_data =
     \<lparr>nd_id = Given ''n-3'', nd_file_path = Given ''c.py'', nd_line_number = Given 3,
      nd_author = Given ''eve'', nd_user_id = Null, nd_timestamp = Null,
      nd_comment = Given ''unsure'', nd_description = Null, nd_cwe = Absent,
      nd_state = Null\<rparr>"

definition demo_body :: "string \<rightharpoonup> note_data list" where
  "demo_body = [''notes'' \<mapsto> [demo_data]]"

definition env_seq :: "nat \<Rightarrow> readings" where
  "env_seq i = (if i = 0 then demo_env else later_env)"

definition after_create :: database where
  "after_create = fst (create_note empty_database demo_env demo_note)"

definition after_replace :: database where
  "after_replace = fst (replace_all_notes empty_database env_seq ''demo'' demo_body)"

definition demo_reply :: ScrewReply where
  "demo_reply =
     \<lparr>sr_id = None, sr_parent_id = ''00000000-0000-0000-0000-000000000001'',
      sr_author = ''bob'', sr_timestamp = None, sr_comment = ''agreed'',
      sr_user_id = ''bob''\<rparr>"

text \<open>
  An application clock ahead of the database clock: the note is created when the
  application reads 100 and 101 and the database reads 40, and updated when the database
  reads 50.
\<close>

definition ahead_env :: readings where
  "ahead_env = \<lparr>fresh_uuid = 1, now1 = 100, now2 = 101, current_timestamp = 40\<rparr>"

definition ahead_later_env :: readings where
  "ahead_later_env = \<lparr>fresh_uuid = 2, now1 = 110, now2 = 111, current_timestamp = 50\<rparr>"

definition created_ahead :: database where
  "created_ahead = fst (create_note empty_database ahead_env demo_note)"

definition revised_note :: ScrewNote where
  "revised_note =
     \<lparr>sn_id = Some ''client-side-id'', sn_file_path = ''b.py'', sn_line_number = 12,
      sn_author = ''carol'', sn_timestamp = Some ''yesterday'', sn_comment = ''confirmed'',
      sn_description = Some ''unchecked length'', sn_cwe = Some ''CWE-120'',
      sn_state = ''vulnerable'', sn_severity = Some ''high'', sn_source = ''sarif-import'',
      sn_import_metadata = Some [(''tool'', JStr ''scanner'')], sn_project_name = ''other'',
      sn_user_id = ''u-carol'', sn_replies = None\<rparr>"

text \<open>The revised note with a CWE text of 21 characters.\<close>

definition long_cwe_note :: ScrewNote where
  "long_cwe_note = revised_note\<lparr>sn_cwe := Some ''CWE-120-CWE-121-CWE-1''\<rparr>"

definition two_notes_body :: "string \<rightharpoonup> note_data list" where
  "two_notes_body = [''notes'' \<mapsto> [demo_data, given_data]]"

definition after_replace_two :: database where
  "after_replace_two = fst (replace_all_notes empty_database env_seq ''demo'' two_notes_body)"

definition three_notes_body :: "string \<rightharpoonup> note_data list" where
  "three_notes_body = [''notes'' \<mapsto> [demo_data, given_data, null_data]]"

definition after_replace_three :: database where
  "after_replace_three =
     fst (replace_all_notes empty_database env_seq ''demo'' three_notes_body)"

definition two_created :: database where
  "two_created = fst (create_note after_create later_env demo_note)"

definition with_reply :: database where
  "with_reply =
     fst (create_reply two_created reply_env ''00000000-0000-0000-0000-000000000001''
            demo_reply)"

definition given_reply :: ScrewReply where
  "given_reply =
     \<lparr>sr_id = Some ''r-9'', sr_parent_id = ''elsewhere'', sr_author = ''dan'',
      sr_timestamp = Some (IsoText 77), sr_comment = ''see also'', sr_user_id = ''u-dan''\<rparr>"

text \<open>The notes of a handler's answer; none when it raised.\<close>

definition notes_of :: "failure + note_dict list \<Rightarrow> note_dict list" where
  "notes_of r = (case r of Inr ns \<Rightarrow> ns | Inl e \<Rightarrow> [])"

section \<open>The two requests that create notes, evaluated\<close>

lemma after_create_eq:
  "after_create =
     \<lparr>tbl_projects = [\<lparr>p_id = 1, p_name = ''demo'', p_path = Some ''/''\<rparr>],
      tbl_notes =
        [\<lparr>n_id = ''00000000-0000-0000-0000-000000000001'', n_project_id = Some 1,
          n_project_name = None, n_file_path = Some ''a.py'', n_line_number = Some 10,
          n_author = Some ''alice'', n_user_id = None, n_timestamp = Some 100,
          n_comment = Some ''check this'', n_description = None, n_cwe = None,
          n_state = Some ''todo'', n_severity = None, n_source = ''native'',
          n_import_metadata = None, n_created_at = Some 102, n_updated_at = Some 101\<rparr>],
      tbl_replies = []\<rparr>"
  by code_simp

lemma after_replace_eq:
  "after_replace =
     \<lparr>tbl_projects = [\<lparr>p_id = 1, p_name = ''demo'', p_path = None\<rparr>],
      tbl_notes =
        [\<lparr>n_id = ''00000000-0000-0000-0000-000000000001'', n_project_id = None,
          n_project_name = Some ''demo'', n_file_path = Some ''a.py'', n_line_number = Some 10,
          n_author = Some ''alice'', n_user_id = Some ''alice'', n_timestamp = Some 100,
          n_comment = Some ''check this'', n_description = None, n_cwe = None,
          n_state = Some ''todo'', n_severity = None, n_source = ''native'',
          n_import_metadata = None, n_created_at = Some 102, n_updated_at = Some 102\<rparr>],
      tbl_replies = []\<rparr>"
  by code_simp

section \<open>Bulk replace and the listing of a project\<close>

text \<open>
  C1. The claim: \<open>replaceAll(P, notes)\<close> followed by \<open>listByProject(P)\<close> returns the
  notes that were put in, as many as \<open>len(notes)\<close>. On the code: a bulk replace of
  project demo with one note succeeds and reports one note, and the listing of project
  demo that follows is empty. The row carries the project's name and no
  \<open>project_id\<close>, and the listing joins the projects on \<open>project_id\<close>.
\<close>

theorem replace_all_then_project_listing_is_empty:
  "replace_all_notes empty_database env_seq ''demo'' demo_body
     = (after_replace, Inr \<lparr>resp_success = True, resp_count = 1\<rparr>)
   \<and> get_project_notes after_replace ''demo'' = Inr []"
  by code_simp

section \<open>The project a note belongs to\<close>

text \<open>
  C2. The claim: every note row created by \<open>create\<close> or by \<open>replaceAll\<close> refers to
  exactly one existing project row through \<open>notes.project_id\<close>. On the code: the row that
  a bulk replace of project demo inserts has a NULL \<open>project_id\<close>, although the project
  row with identifier 1 exists.
\<close>

theorem replace_all_row_has_no_project:
  "replace_all_notes empty_database env_seq ''demo'' demo_body
     = (after_replace, Inr \<lparr>resp_success = True, resp_count = 1\<rparr>)
   \<and> map n_project_id (tbl_notes after_replace) = [None]
   \<and> map p_id (tbl_projects after_replace) = [1]"
  by code_simp

section \<open>Create, then list the line\<close>

text \<open>
  C3. The claim: creating the note of the scenario returns a note with a non-empty
  identifier, state todo and source native, and the listing of line 10 of a.py in project
  demo then returns exactly that note. On the code: the response is as claimed, and the
  listing of the line is empty. The row carries a \<open>project_id\<close> and no project name,
  and the listing of a line selects on \<open>notes.project_name\<close>.
\<close>

theorem create_then_line_listing_is_empty:
  "create_note empty_database demo_env demo_note
     = (after_create, Inr (demo_note\<lparr>sn_id := Some ''00000000-0000-0000-0000-000000000001''\<rparr>))
   \<and> sn_state demo_note = ''todo'' \<and> sn_source demo_note = ''native''
   \<and> get_line_notes after_create ''demo'' ''a.py'' 10 = Inr []"
  by code_simp

section \<open>Timestamps in the results\<close>

text \<open>
  C4. The claim: every timestamp in a note that a query returns is an ISO-8601 text, never
  a native datetime. On the code: the listing of a file and the listing of a line return
  the row's \<open>timestamp\<close>, \<open>created_at\<close> and \<open>updated_at\<close> as native datetimes, and the
  listing of a project returns \<open>created_at\<close> as a native datetime.
\<close>

theorem file_listing_returns_native_datetime:
  "get_file_notes after_replace ''demo'' ''a.py'' =
     Inr [\<lparr>d_id = ''00000000-0000-0000-0000-000000000001'', d_project_id = None,
           d_project_name = Some ''demo'', d_file_path = Some ''a.py'',
           d_line_number = Some 10, d_author = Some ''alice'',
           d_user_id = Some ''alice'', d_timestamp = TsDatetime 100,
           d_comment = Some ''check this'', d_description = None, d_cwe = None,
           d_state = Some ''todo'', d_severity = None, d_source = ''native'',
           d_import_metadata = None, d_created_at = TsDatetime 102,
           d_updated_at = TsDatetime 102, d_replies = Some []\<rparr>]
   \<and> get_line_notes after_replace ''demo'' ''a.py'' 10
       = get_file_notes after_replace ''demo'' ''a.py''
   \<and> map d_created_at
         (case get_project_notes after_create ''demo'' of Inr ns \<Rightarrow> ns | Inl e \<Rightarrow> [])
       = [TsDatetime 102]"
  by code_simp

section \<open>Facts about the building blocks\<close>

lemma length_str_uuid: "length (str_uuid u) = 36"
  by (simp add: str_uuid_def uuid_hex_def Let_def)

lemma str_uuid_nonempty: "str_uuid u \<noteq> []"
  using length_str_uuid [of u] by auto

lemma note_not_found_reraised:
  "reraise_or_500 ''Note not found'' (HTTPException 404 ''Note not found'')
     = HTTPException 404 ''Note not found''"
  by code_simp

lemma parent_not_found_reraised:
  "reraise_or_500 ''Parent note not found'' (HTTPException 404 ''Parent note not found'')
     = HTTPException 404 ''Parent note not found''"
  by code_simp

lemma filter_id_empty_iff:
  "(filter (\<lambda>n. n_id n = i) ns = []) = (i \<notin> set (map n_id ns))"
  by (auto simp: filter_empty_conv)

lemma map_update_absent:
  "i \<notin> set (map n_id ns) \<Longrightarrow> map (\<lambda>n. if n_id n = i then f n else n) ns = ns"
  by (induction ns) auto

section \<open>Update\<close>

lemma unfit_values_wrapped:
  "check_note_values l c v s = Some e \<Longrightarrow>
     reraise_or_500 ''Note not found'' e = HTTPException 500 (str_exc e)"
proof -
  assume "check_note_values l c v s = Some e"
  then consider "e = DatabaseError ''integer out of range''"
    | "e = DatabaseError ''value too long for type character varying(20)''"
    | "e = DatabaseError ''value too long for type character varying(10)''"
    by (auto simp: check_note_values_def split: if_splits)
  then show ?thesis
  proof cases
    case 1
    show ?thesis unfolding 1 by code_simp
  next
    case 2
    show ?thesis unfolding 2 by code_simp
  next
    case 3
    show ?thesis unfolding 3 by code_simp
  qed
qed

lemma update_note_unfit:
  "check_note_values (Some (sn_line_number note)) (sn_cwe note) (sn_severity note)
        (sn_source note) = Some e \<Longrightarrow>
     update_note db env note_id note = (db, Inl (HTTPException 500 (str_exc e)))"
  by (simp add: update_note_def unfit_values_wrapped)

lemma update_note_absent:
  "check_note_values (Some (sn_line_number note)) (sn_cwe note) (sn_severity note)
        (sn_source note) = None \<Longrightarrow>
   note_id \<notin> set (map n_id (tbl_notes db)) \<Longrightarrow>
     update_note db env note_id note = (db, Inl (HTTPException 404 ''Note not found''))"
  by (simp add: update_note_def Let_def note_not_found_reraised map_update_absent
        filter_id_empty_iff [symmetric] del: set_map)

lemma update_note_present:
  "check_note_values (Some (sn_line_number note)) (sn_cwe note) (sn_severity note)
        (sn_source note) = None \<Longrightarrow>
   note_id \<in> set (map n_id (tbl_notes db)) \<Longrightarrow>
     update_note db env note_id note =
       (db\<lparr>tbl_notes := map (\<lambda>n. if n_id n = note_id
                                  then update_row (current_timestamp env) note n else n)
                            (tbl_notes db)\<rparr>,
        Inr (note\<lparr>sn_id := Some note_id\<rparr>))"
  using filter_id_empty_iff [of note_id "tbl_notes db"]
  by (simp add: update_note_def Let_def del: set_map)

text \<open>
  C5. The claim: an update of an identifier that no note has answers Not-Found and changes
  nothing; an update of a stored note changes exactly the mutable fields, moves the update
  timestamp strictly forward and leaves the identifier and the creation timestamp as they
  were. On the code the update timestamp becomes the database's \<open>CURRENT_TIMESTAMP\<close>,
  while a create writes it from the application's \<open>datetime.now()\<close>: with the application
  clock ahead of the database clock, the update of a note created at 101 sets it to 50.
  And a request whose values do not fit the columns, here a CWE text of 21 characters,
  answers 500 and changes nothing.
\<close>

theorem update_note_not_strictly_forward:
  "update_note created_ahead ahead_later_env ''00000000-0000-0000-0000-000000000001'' revised_note
     = (fst (update_note created_ahead ahead_later_env ''00000000-0000-0000-0000-000000000001'' revised_note),
        Inr (revised_note\<lparr>sn_id := Some ''00000000-0000-0000-0000-000000000001''\<rparr>))
   \<and> map n_id (tbl_notes created_ahead) = [''00000000-0000-0000-0000-000000000001'']
   \<and> map n_updated_at (tbl_notes created_ahead) = [Some 101]
   \<and> map n_updated_at
        (tbl_notes (fst (update_note created_ahead ahead_later_env ''00000000-0000-0000-0000-000000000001'' revised_note)))
       = [Some 50]
   \<and> \<not> ((101 :: nat) < 50)
   \<and> update_note after_create later_env ''00000000-0000-0000-0000-000000000001'' long_cwe_note
       = (after_create,
          Inl (HTTPException 500 ''value too long for type character varying(20)''))"
  by code_simp

text \<open>
  C5, as the code has it. When the values of the request fit their columns: an update of an
  identifier that no stored note has answers 404 Note not found and leaves the database as
  it was; an update of a stored note succeeds, leaves the projects, the replies and every
  note with another identifier as they were, and in the note with that identifier sets the
  nine columns \<open>file_path\<close>, \<open>line_number\<close>, \<open>author\<close>, \<open>comment\<close>, \<open>description\<close>,
  \<open>cwe\<close>, \<open>state\<close>, \<open>severity\<close> and \<open>source\<close> to the values of the request and
  \<open>updated_at\<close> to the database's current time, which is later than the stored value
  exactly when the database's clock reads later than it, and leaves the identifier,
  \<open>created_at\<close>, \<open>timestamp\<close> and every other column as they were. When a value does
  not fit its column the update answers 500 and leaves the database as it was.
\<close>

theorem update_note_frame:
  "(check_note_values (Some (sn_line_number note)) (sn_cwe note) (sn_severity note)
        (sn_source note) = None \<longrightarrow>
      (note_id \<notin> set (map n_id (tbl_notes db)) \<longrightarrow>
         update_note db env note_id note = (db, Inl (HTTPException 404 ''Note not found'')))
    \<and> (note_id \<in> set (map n_id (tbl_notes db)) \<longrightarrow>
      (\<exists>db'. update_note db env note_id note = (db', Inr (note\<lparr>sn_id := Some note_id\<rparr>))
         \<and> tbl_projects db' = tbl_projects db \<and> tbl_replies db' = tbl_replies db
         \<and> length (tbl_notes db') = length (tbl_notes db)
         \<and> (\<forall>i < length (tbl_notes db).
              let old = tbl_notes db ! i; new = tbl_notes db' ! i in
                (n_id old \<noteq> note_id \<longrightarrow> new = old)
              \<and> (n_id old = note_id \<longrightarrow>
                   n_file_path new = Some (sn_file_path note)
                 \<and> n_line_number new = Some (sn_line_number note)
                 \<and> n_author new = Some (sn_author note)
                 \<and> n_comment new = Some (sn_comment note)
                 \<and> n_description new = sn_description note
                 \<and> n_cwe new = sn_cwe note
                 \<and> n_state new = Some (sn_state note)
                 \<and> n_severity new = sn_severity note
                 \<and> n_source new = sn_source note
                 \<and> n_updated_at new = Some (current_timestamp env)
                 \<and> (\<forall>t. n_updated_at old = Some t \<longrightarrow>
                        ((\<exists>t'. n_updated_at new = Some t' \<and> t < t')
                           = (t < current_timestamp env)))
                 \<and> n_id new = n_id old
                 \<and> n_created_at new = n_created_at old
                 \<and> n_timestamp new = n_timestamp old
                 \<and> n_project_id new = n_project_id old
                 \<and> n_project_name new = n_project_name old
                 \<and> n_user_id new = n_user_id old
                 \<and> n_import_metadata new = n_import_metadata old)))))
   \<and> (\<forall>e. check_note_values (Some (sn_line_number note)) (sn_cwe note) (sn_severity note)
        (sn_source note) = Some e \<longrightarrow>
         update_note db env note_id note = (db, Inl (HTTPException 500 (str_exc e))))"
proof (intro conjI impI allI)
  assume "check_note_values (Some (sn_line_number note)) (sn_cwe note) (sn_severity note)
        (sn_source note) = None"
    and "note_id \<notin> set (map n_id (tbl_notes db))"
  then show "update_note db env note_id note = (db, Inl (HTTPException 404 ''Note not found''))"
    by (rule update_note_absent)
next
  fix e
  assume "check_note_values (Some (sn_line_number note)) (sn_cwe note) (sn_severity note)
        (sn_source note) = Some e"
  then show "update_note db env note_id note = (db, Inl (HTTPException 500 (str_exc e)))"
    by (rule update_note_unfit)
next
  assume fits: "check_note_values (Some (sn_line_number note)) (sn_cwe note) (sn_severity note)
        (sn_source note) = None"
    and found: "note_id \<in> set (map n_id (tbl_notes db))"
  let ?db' = "db\<lparr>tbl_notes := map (\<lambda>n. if n_id n = note_id
                                  then update_row (current_timestamp env) note n else n)
                            (tbl_notes db)\<rparr>"
  have run: "update_note db env note_id note = (?db', Inr (note\<lparr>sn_id := Some note_id\<rparr>))"
    by (rule update_note_present [OF fits found])
  have rest: "tbl_projects ?db' = tbl_projects db" "tbl_replies ?db' = tbl_replies db"
    "length (tbl_notes ?db') = length (tbl_notes db)"
    by simp_all
  have rows: "\<forall>i < length (tbl_notes db).
              let old = tbl_notes db ! i; new = tbl_notes ?db' ! i in
                (n_id old \<noteq> note_id \<longrightarrow> new = old)
              \<and> (n_id old = note_id \<longrightarrow>
                   n_file_path new = Some (sn_file_path note)
                 \<and> n_line_number new = Some (sn_line_number note)
                 \<and> n_author new = Some (sn_author note)
                 \<and> n_comment new = Some (sn_comment note)
                 \<and> n_description new = sn_description note
                 \<and> n_cwe new = sn_cwe note
                 \<and> n_state new = Some (sn_state note)
                 \<and> n_severity new = sn_severity note
                 \<and> n_source new = sn_source note
                 \<and> n_updated_at new = Some (current_timestamp env)
                 \<and> (\<forall>t. n_updated_at old = Some t \<longrightarrow>
                        ((\<exists>t'. n_updated_at new = Some t' \<and> t < t')
                           = (t < current_timestamp env)))
                 \<and> n_id new = n_id old
                 \<and> n_created_at new = n_created_at old
                 \<and> n_timestamp new = n_timestamp old
                 \<and> n_project_id new = n_project_id old
                 \<and> n_project_name new = n_project_name old
                 \<and> n_user_id new = n_user_id old
                 \<and> n_import_metadata new = n_import_metadata old)"
    by (simp add: Let_def update_row_def)
  from run rest rows
  show "\<exists>db'. update_note db env note_id note = (db', Inr (note\<lparr>sn_id := Some note_id\<rparr>))
         \<and> tbl_projects db' = tbl_projects db \<and> tbl_replies db' = tbl_replies db
         \<and> length (tbl_notes db') = length (tbl_notes db)
         \<and> (\<forall>i < length (tbl_notes db).
              let old = tbl_notes db ! i; new = tbl_notes db' ! i in
                (n_id old \<noteq> note_id \<longrightarrow> new = old)
              \<and> (n_id old = note_id \<longrightarrow>
                   n_file_path new = Some (sn_file_path note)
                 \<and> n_line_number new = Some (sn_line_number note)
                 \<and> n_author new = Some (sn_author note)
                 \<and> n_comment new = Some (sn_comment note)
                 \<and> n_description new = sn_description note
                 \<and> n_cwe new = sn_cwe note
                 \<and> n_state new = Some (sn_state note)
                 \<and> n_severity new = sn_severity note
                 \<and> n_source new = sn_source note
                 \<and> n_updated_at new = Some (current_timestamp env)
                 \<and> (\<forall>t. n_updated_at old = Some t \<longrightarrow>
                        ((\<exists>t'. n_updated_at new = Some t' \<and> t < t')
                           = (t < current_timestamp env)))
                 \<and> n_id new = n_id old
                 \<and> n_created_at new = n_created_at old
                 \<and> n_timestamp new = n_timestamp old
                 \<and> n_project_id new = n_project_id old
                 \<and> n_project_name new = n_project_name old
                 \<and> n_user_id new = n_user_id old
                 \<and> n_import_metadata new = n_import_metadata old))"
    by blast
qed

theorem update_note_frame_witness:
  "check_note_values (Some (sn_line_number revised_note)) (sn_cwe revised_note)
       (sn_severity revised_note) (sn_source revised_note) = None
   \<and> ''no-such-note'' \<notin> set (map n_id (tbl_notes after_create))
   \<and> update_note after_create later_env ''no-such-note'' revised_note
       = (after_create, Inl (HTTPException 404 ''Note not found''))
   \<and> ''00000000-0000-0000-0000-000000000001'' \<in> set (map n_id (tbl_notes after_create))
   \<and> snd (update_note after_create later_env ''00000000-0000-0000-0000-000000000001'' revised_note)
       = Inr (revised_note\<lparr>sn_id := Some ''00000000-0000-0000-0000-000000000001''\<rparr>)
   \<and> map n_updated_at (tbl_notes after_create) = [Some 101]
   \<and> current_timestamp later_env = 202
   \<and> tbl_notes (fst (update_note after_create later_env ''00000000-0000-0000-0000-000000000001'' revised_note)) =
        [\<lparr>n_id = ''00000000-0000-0000-0000-000000000001'', n_project_id = Some 1,
          n_project_name = None, n_file_path = Some ''b.py'', n_line_number = Some 12,
          n_author = Some ''carol'', n_user_id = None, n_timestamp = Some 100,
          n_comment = Some ''confirmed'', n_description = Some ''unchecked length'',
          n_cwe = Some ''CWE-120'', n_state = Some ''vulnerable'',
          n_severity = Some ''high'', n_source = ''sarif-import'',
          n_import_metadata = None, n_created_at = Some 102, n_updated_at = Some 202\<rparr>]
   \<and> check_note_values (Some (sn_line_number long_cwe_note)) (sn_cwe long_cwe_note)
       (sn_severity long_cwe_note) (sn_source long_cwe_note)
       = Some (DatabaseError ''value too long for type character varying(20)'')
   \<and> update_note after_create later_env ''00000000-0000-0000-0000-000000000001'' long_cwe_note
       = (after_create,
          Inl (HTTPException 500 ''value too long for type character varying(20)''))"
proof -
  have fits: "check_note_values (Some (sn_line_number revised_note)) (sn_cwe revised_note)
       (sn_severity revised_note) (sn_source revised_note) = None"
    by code_simp
  have unfit: "check_note_values (Some (sn_line_number long_cwe_note)) (sn_cwe long_cwe_note)
       (sn_severity long_cwe_note) (sn_source long_cwe_note)
       = Some (DatabaseError ''value too long for type character varying(20)'')"
    by code_simp
  have absent: "''no-such-note'' \<notin> set (map n_id (tbl_notes after_create))"
    by (simp add: after_create_eq)
  have stored: "''00000000-0000-0000-0000-000000000001'' \<in> set (map n_id (tbl_notes after_create))"
    by (simp add: after_create_eq)
  have first: "update_note after_create later_env ''no-such-note'' revised_note
       = (after_create, Inl (HTTPException 404 ''Note not found''))"
    using update_note_frame [of revised_note "''no-such-note''" after_create later_env]
      fits absent
    by blast
  have "\<exists>db'. update_note after_create later_env ''00000000-0000-0000-0000-000000000001'' revised_note
          = (db', Inr (revised_note\<lparr>sn_id := Some ''00000000-0000-0000-0000-000000000001''\<rparr>))"
    using update_note_frame [of revised_note "''00000000-0000-0000-0000-000000000001''" after_create later_env] fits stored
    by blast
  then have second: "snd (update_note after_create later_env ''00000000-0000-0000-0000-000000000001'' revised_note)
       = Inr (revised_note\<lparr>sn_id := Some ''00000000-0000-0000-0000-000000000001''\<rparr>)"
    by auto
  have third: "map n_updated_at (tbl_notes after_create) = [Some 101]"
    "current_timestamp later_env = 202"
    by (simp_all add: after_create_eq later_env_def)
  have fourth: "tbl_notes (fst (update_note after_create later_env ''00000000-0000-0000-0000-000000000001'' revised_note)) =
        [\<lparr>n_id = ''00000000-0000-0000-0000-000000000001'', n_project_id = Some 1,
          n_project_name = None, n_file_path = Some ''b.py'', n_line_number = Some 12,
          n_author = Some ''carol'', n_user_id = None, n_timestamp = Some 100,
          n_comment = Some ''confirmed'', n_description = Some ''unchecked length'',
          n_cwe = Some ''CWE-120'', n_state = Some ''vulnerable'',
          n_severity = Some ''high'', n_source = ''sarif-import'',
          n_import_metadata = None, n_created_at = Some 102, n_updated_at = Some 202\<rparr>]"
    by code_simp
  have "update_note after_create later_env ''00000000-0000-0000-0000-000000000001'' long_cwe_note
       = (after_create,
          Inl (HTTPException 500
                 (str_exc (DatabaseError ''value too long for type character varying(20)''))))"
    using update_note_frame [of long_cwe_note "''00000000-0000-0000-0000-000000000001''" after_create later_env] unfit
    by blast
  then have fifth: "update_note after_create later_env ''00000000-0000-0000-0000-000000000001'' long_cwe_note
       = (after_create,
          Inl (HTTPException 500 ''value too long for type character varying(20)''))"
    by simp
  from fits absent stored first second third fourth unfit fifth show ?thesis by blast
qed

text \<open>
  C10. A successful update answers with the request body in which only the identifier is
  replaced by the identifier of the path: \<open>timestamp\<close>, \<open>user_id\<close>, \<open>project_name\<close>,
  \<open>import_metadata\<close> and \<open>replies\<close> come back as they were sent, and the answer is the
  same whatever the clocks read, so the new \<open>updated_at\<close> is not in it.
\<close>

theorem update_note_response_is_request_body:
  assumes "update_note db env note_id note = (db', Inr r)"
  shows "r = note\<lparr>sn_id := Some note_id\<rparr>
       \<and> sn_timestamp r = sn_timestamp note \<and> sn_user_id r = sn_user_id note
       \<and> sn_project_name r = sn_project_name note
       \<and> sn_import_metadata r = sn_import_metadata note \<and> sn_replies r = sn_replies note
       \<and> snd (update_note db env2 note_id note) = Inr r"
proof -
  have fits: "check_note_values (Some (sn_line_number note)) (sn_cwe note) (sn_severity note)
        (sn_source note) = None"
  proof (cases "check_note_values (Some (sn_line_number note)) (sn_cwe note) (sn_severity note)
        (sn_source note)")
    case None
    then show ?thesis .
  next
    case (Some e)
    from update_note_unfit [OF this, of db env note_id] assms show ?thesis by simp
  qed
  have found: "note_id \<in> set (map n_id (tbl_notes db))"
  proof (rule ccontr)
    assume "note_id \<notin> set (map n_id (tbl_notes db))"
    from update_note_absent [OF fits this, of env] assms show False by simp
  qed
  from update_note_present [OF fits found, of env] assms
  have r: "r = note\<lparr>sn_id := Some note_id\<rparr>" by simp
  from update_note_present [OF fits found, of env2] r show ?thesis by simp
qed

theorem update_note_response_is_request_body_witness:
  "update_note after_create later_env ''00000000-0000-0000-0000-000000000001'' revised_note
     = (fst (update_note after_create later_env ''00000000-0000-0000-0000-000000000001'' revised_note),
        Inr (revised_note\<lparr>sn_id := Some ''00000000-0000-0000-0000-000000000001''\<rparr>))
   \<and> sn_timestamp (revised_note\<lparr>sn_id := Some ''00000000-0000-0000-0000-000000000001''\<rparr>) = Some ''yesterday''
   \<and> sn_user_id (revised_note\<lparr>sn_id := Some ''00000000-0000-0000-0000-000000000001''\<rparr>) = ''u-carol''
   \<and> map n_user_id (tbl_notes (fst (update_note after_create later_env ''00000000-0000-0000-0000-000000000001'' revised_note)))
       = [None]
   \<and> snd (update_note after_create demo_env ''00000000-0000-0000-0000-000000000001'' revised_note)
       = Inr (revised_note\<lparr>sn_id := Some ''00000000-0000-0000-0000-000000000001''\<rparr>)"
proof -
  have run: "update_note after_create later_env ''00000000-0000-0000-0000-000000000001'' revised_note
     = (fst (update_note after_create later_env ''00000000-0000-0000-0000-000000000001'' revised_note),
        Inr (revised_note\<lparr>sn_id := Some ''00000000-0000-0000-0000-000000000001''\<rparr>))"
    by code_simp
  have sent: "sn_timestamp revised_note = Some ''yesterday''"
    "sn_user_id revised_note = ''u-carol''"
    by (simp_all add: revised_note_def)
  have kept: "map n_user_id (tbl_notes (fst (update_note after_create later_env ''00000000-0000-0000-0000-000000000001'' revised_note)))
       = [None]"
    by code_simp
  from update_note_response_is_request_body [OF run, of demo_env] run sent kept
  show ?thesis by simp
qed

section \<open>Replies\<close>

lemma create_reply_absent:
  "parent_id \<notin> set (map n_id (tbl_notes db)) \<Longrightarrow>
     create_reply db env parent_id reply
       = (db, Inl (HTTPException 404 ''Parent note not found''))"
  by (simp add: create_reply_def parent_not_found_reraised filter_id_empty_iff del: set_map)

text \<open>
  C6. A reply to a parent identifier that no stored note has answers 404 Parent note not
  found and leaves the database, so the replies, as it was. For a stored parent, the
  identifier of the reply is the one given, or the text of a generated UUID when none (or
  an empty one) was given; its timestamp is the one given, or the current time when none
  (or an empty one) was given; when that identifier is not yet the identifier of a reply
  and the timestamp text is readable, the reply row with these values and the parent of
  the path is appended to the replies and the completed reply is the answer.
\<close>

theorem create_reply_effect:
  "(parent_id \<notin> set (map n_id (tbl_notes db)) \<longrightarrow>
      create_reply db env parent_id reply
        = (db, Inl (HTTPException 404 ''Parent note not found'')))
   \<and> (parent_id \<in> set (map n_id (tbl_notes db)) \<longrightarrow>
       (\<forall>i t d.
          i = (case sr_id reply of None \<Rightarrow> str_uuid (fresh_uuid env)
               | Some j \<Rightarrow> if j = [] then str_uuid (fresh_uuid env) else j) \<longrightarrow>
          t = (case sr_timestamp reply of None \<Rightarrow> isoformat (now1 env)
               | Some (IsoText x) \<Rightarrow> IsoText x
               | Some (OtherText s) \<Rightarrow> if s = [] then isoformat (now1 env) else OtherText s) \<longrightarrow>
          timestamp_in t = Some d \<longrightarrow>
          i \<notin> set (map r_id (tbl_replies db)) \<longrightarrow>
          create_reply db env parent_id reply
            = (db\<lparr>tbl_replies := tbl_replies db
                     @ [\<lparr>r_id = i, r_parent_id = parent_id, r_author = sr_author reply,
                         r_user_id = sr_user_id reply, r_timestamp = d,
                         r_comment = sr_comment reply\<rparr>]\<rparr>,
               Inr (reply\<lparr>sr_id := Some i, sr_timestamp := Some t\<rparr>))))"
proof (intro conjI impI allI)
  assume "parent_id \<notin> set (map n_id (tbl_notes db))"
  then show "create_reply db env parent_id reply
        = (db, Inl (HTTPException 404 ''Parent note not found''))"
    by (rule create_reply_absent)
next
  fix i t d
  assume found: "parent_id \<in> set (map n_id (tbl_notes db))"
    and i: "i = (case sr_id reply of None \<Rightarrow> str_uuid (fresh_uuid env)
               | Some j \<Rightarrow> if j = [] then str_uuid (fresh_uuid env) else j)"
    and t: "t = (case sr_timestamp reply of None \<Rightarrow> isoformat (now1 env)
               | Some (IsoText x) \<Rightarrow> IsoText x
               | Some (OtherText s) \<Rightarrow> if s = [] then isoformat (now1 env) else OtherText s)"
    and d: "timestamp_in t = Some d"
    and fresh: "i \<notin> set (map r_id (tbl_replies db))"
  let ?reply1 = "if \<not> str_truthy (sr_id reply)
                       then reply\<lparr>sr_id := Some (str_uuid (fresh_uuid env))\<rparr> else reply"
  let ?reply2 = "if \<not> ts_text_truthy (sr_timestamp ?reply1)
                       then ?reply1\<lparr>sr_timestamp := Some (isoformat (now1 env))\<rparr> else ?reply1"
  have id1: "sr_id ?reply1 = Some i"
    using i by (auto simp: str_truthy_def split: option.splits)
  have ts1: "sr_timestamp ?reply1 = sr_timestamp reply"
    by simp
  have ts2: "sr_timestamp ?reply2 = Some t"
    using t unfolding ts1
    by (auto simp: ts_text_truthy_def split: option.splits ts_text.splits)
  have id2: "sr_id ?reply2 = Some i"
    using id1 by simp
  have r2: "?reply2 = reply\<lparr>sr_id := Some i, sr_timestamp := Some t\<rparr>"
    using id2 ts2 by (auto split: if_splits)
  have row: "reply_row_of parent_id ?reply2
      = Inr \<lparr>r_id = i, r_parent_id = parent_id, r_author = sr_author reply,
                         r_user_id = sr_user_id reply, r_timestamp = d,
                         r_comment = sr_comment reply\<rparr>"
    unfolding r2 using d by (simp add: reply_row_of_def)
  have ins: "insert_reply db \<lparr>r_id = i, r_parent_id = parent_id, r_author = sr_author reply,
                         r_user_id = sr_user_id reply, r_timestamp = d,
                         r_comment = sr_comment reply\<rparr>
      = Inr (db\<lparr>tbl_replies := tbl_replies db
                     @ [\<lparr>r_id = i, r_parent_id = parent_id, r_author = sr_author reply,
                         r_user_id = sr_user_id reply, r_timestamp = d,
                         r_comment = sr_comment reply\<rparr>]\<rparr>)"
    using found fresh by (simp add: insert_reply_def del: set_map)
  have ne: "filter (\<lambda>n. n_id n = parent_id) (tbl_notes db) \<noteq> []"
    using found by (simp add: filter_id_empty_iff del: set_map)
  have "create_reply db env parent_id reply =
          (case reply_row_of parent_id ?reply2 of
              Inl e \<Rightarrow> (db, Inl (reraise_or_500 ''Parent note not found'' e))
            | Inr row \<Rightarrow>
                (case insert_reply db row of
                   Inl e \<Rightarrow> (db, Inl (reraise_or_500 ''Parent note not found'' e))
                 | Inr db' \<Rightarrow> (db', Inr ?reply2)))"
    using ne unfolding create_reply_def Let_def by simp
  also have "\<dots> = (db\<lparr>tbl_replies := tbl_replies db
                     @ [\<lparr>r_id = i, r_parent_id = parent_id, r_author = sr_author reply,
                         r_user_id = sr_user_id reply, r_timestamp = d,
                         r_comment = sr_comment reply\<rparr>]\<rparr>, Inr ?reply2)"
    unfolding row by (simp add: ins)
  finally show "create_reply db env parent_id reply
            = (db\<lparr>tbl_replies := tbl_replies db
                     @ [\<lparr>r_id = i, r_parent_id = parent_id, r_author = sr_author reply,
                         r_user_id = sr_user_id reply, r_timestamp = d,
                         r_comment = sr_comment reply\<rparr>]\<rparr>,
               Inr (reply\<lparr>sr_id := Some i, sr_timestamp := Some t\<rparr>))"
    using r2 by simp
qed

theorem create_reply_effect_witness:
  "''no-such-note'' \<notin> set (map n_id (tbl_notes two_created))
   \<and> create_reply two_created reply_env ''no-such-note'' demo_reply
       = (two_created, Inl (HTTPException 404 ''Parent note not found''))
   \<and> ''00000000-0000-0000-0000-000000000001'' \<in> set (map n_id (tbl_notes two_created))
   \<and> sr_id demo_reply = None \<and> sr_timestamp demo_reply = None
   \<and> create_reply two_created reply_env ''00000000-0000-0000-0000-000000000001'' demo_reply
       = (with_reply,
          Inr (demo_reply\<lparr>sr_id := Some ''00000000-0000-0000-0000-000000000003'', sr_timestamp := Some (IsoText 300)\<rparr>))
   \<and> tbl_replies with_reply
       = [\<lparr>r_id = ''00000000-0000-0000-0000-000000000003'', r_parent_id = ''00000000-0000-0000-0000-000000000001'', r_author = ''bob'', r_user_id = ''bob'',
           r_timestamp = 300, r_comment = ''agreed''\<rparr>]
   \<and> create_reply with_reply later_env ''00000000-0000-0000-0000-000000000001'' given_reply
       = (with_reply\<lparr>tbl_replies := tbl_replies with_reply
                         @ [\<lparr>r_id = ''r-9'', r_parent_id = ''00000000-0000-0000-0000-000000000001'', r_author = ''dan'',
                             r_user_id = ''u-dan'', r_timestamp = 77,
                             r_comment = ''see also''\<rparr>]\<rparr>,
          Inr given_reply)"
proof -
  have absent: "''no-such-note'' \<notin> set (map n_id (tbl_notes two_created))"
    by code_simp
  have stored: "''00000000-0000-0000-0000-000000000001'' \<in> set (map n_id (tbl_notes two_created))"
    by code_simp
  have stored': "''00000000-0000-0000-0000-000000000001'' \<in> set (map n_id (tbl_notes with_reply))"
    by code_simp
  have omitted: "sr_id demo_reply = None" "sr_timestamp demo_reply = None"
    by (simp_all add: demo_reply_def)
  have first: "create_reply two_created reply_env ''no-such-note'' demo_reply
       = (two_created, Inl (HTTPException 404 ''Parent note not found''))"
    using create_reply_effect [of "''no-such-note''" two_created reply_env demo_reply] absent
    by blast
  have "create_reply two_created reply_env ''00000000-0000-0000-0000-000000000001'' demo_reply
       = (two_created\<lparr>tbl_replies := tbl_replies two_created
             @ [\<lparr>r_id = ''00000000-0000-0000-0000-000000000003'', r_parent_id = ''00000000-0000-0000-0000-000000000001'', r_author = sr_author demo_reply,
                 r_user_id = sr_user_id demo_reply, r_timestamp = 300,
                 r_comment = sr_comment demo_reply\<rparr>]\<rparr>,
          Inr (demo_reply\<lparr>sr_id := Some ''00000000-0000-0000-0000-000000000003'', sr_timestamp := Some (IsoText 300)\<rparr>))"
  proof (rule create_reply_effect [of "''00000000-0000-0000-0000-000000000001''" two_created reply_env demo_reply,
        THEN conjunct2, rule_format, OF stored])
    show "''00000000-0000-0000-0000-000000000003'' = (case sr_id demo_reply of None \<Rightarrow> str_uuid (fresh_uuid reply_env)
               | Some j \<Rightarrow> if j = [] then str_uuid (fresh_uuid reply_env) else j)"
      by code_simp
    show "IsoText 300 = (case sr_timestamp demo_reply of None \<Rightarrow> isoformat (now1 reply_env)
               | Some (IsoText x) \<Rightarrow> IsoText x
               | Some (OtherText s) \<Rightarrow> if s = [] then isoformat (now1 reply_env) else OtherText s)"
      by code_simp
    show "timestamp_in (IsoText 300) = Some 300"
      by simp
    show "''00000000-0000-0000-0000-000000000003'' \<notin> set (map r_id (tbl_replies two_created))"
      by code_simp
  qed
  moreover have "two_created\<lparr>tbl_replies := tbl_replies two_created
             @ [\<lparr>r_id = ''00000000-0000-0000-0000-000000000003'', r_parent_id = ''00000000-0000-0000-0000-000000000001'', r_author = sr_author demo_reply,
                 r_user_id = sr_user_id demo_reply, r_timestamp = 300,
                 r_comment = sr_comment demo_reply\<rparr>]\<rparr> = with_reply"
    by code_simp
  ultimately have second: "create_reply two_created reply_env ''00000000-0000-0000-0000-000000000001'' demo_reply
       = (with_reply,
          Inr (demo_reply\<lparr>sr_id := Some ''00000000-0000-0000-0000-000000000003'', sr_timestamp := Some (IsoText 300)\<rparr>))"
    by simp
  have third: "tbl_replies with_reply
       = [\<lparr>r_id = ''00000000-0000-0000-0000-000000000003'', r_parent_id = ''00000000-0000-0000-0000-000000000001'', r_author = ''bob'', r_user_id = ''bob'',
           r_timestamp = 300, r_comment = ''agreed''\<rparr>]"
    by code_simp
  have "create_reply with_reply later_env ''00000000-0000-0000-0000-000000000001'' given_reply
       = (with_reply\<lparr>tbl_replies := tbl_replies with_reply
             @ [\<lparr>r_id = ''r-9'', r_parent_id = ''00000000-0000-0000-0000-000000000001'', r_author = sr_author given_reply,
                 r_user_id = sr_user_id given_reply, r_timestamp = 77,
                 r_comment = sr_comment given_reply\<rparr>]\<rparr>,
          Inr (given_reply\<lparr>sr_id := Some ''r-9'', sr_timestamp := Some (IsoText 77)\<rparr>))"
  proof (rule create_reply_effect [of "''00000000-0000-0000-0000-000000000001''" with_reply later_env given_reply,
        THEN conjunct2, rule_format, OF stored'])
    show "''r-9'' = (case sr_id given_reply of None \<Rightarrow> str_uuid (fresh_uuid later_env)
               | Some j \<Rightarrow> if j = [] then str_uuid (fresh_uuid later_env) else j)"
      by code_simp
    show "IsoText 77 = (case sr_timestamp given_reply of None \<Rightarrow> isoformat (now1 later_env)
               | Some (IsoText x) \<Rightarrow> IsoText x
               | Some (OtherText s) \<Rightarrow> if s = [] then isoformat (now1 later_env) else OtherText s)"
      by code_simp
    show "timestamp_in (IsoText 77) = Some 77"
      by simp
    show "''r-9'' \<notin> set (map r_id (tbl_replies with_reply))"
      by code_simp
  qed
  then have fourth: "create_reply with_reply later_env ''00000000-0000-0000-0000-000000000001'' given_reply
       = (with_reply\<lparr>tbl_replies := tbl_replies with_reply
                         @ [\<lparr>r_id = ''r-9'', r_parent_id = ''00000000-0000-0000-0000-000000000001'', r_author = ''dan'',
                             r_user_id = ''u-dan'', r_timestamp = 77,
                             r_comment = ''see also''\<rparr>]\<rparr>,
          Inr given_reply)"
    by (simp add: given_reply_def)
  from absent stored omitted first second third fourth show ?thesis by blast
qed

section \<open>Bulk replace\<close>

lemma insert_note_Inr:
  "insert_note db row = Inr db' \<Longrightarrow>
     db' = db\<lparr>tbl_notes := tbl_notes db @ [row]\<rparr>"
  by (auto simp: insert_note_def split: if_splits option.splits)

lemma insert_all_rows:
  "insert_all db env i project_name ns = (db', Inr u) \<Longrightarrow>
     \<exists>rows. db' = db\<lparr>tbl_notes := tbl_notes db @ rows\<rparr> \<and> length rows = length ns
        \<and> (\<forall>k < length ns. replace_row (env (i + k)) project_name (ns ! k) = Inr (rows ! k))"
proof (induction ns arbitrary: db i)
  case Nil
  then show ?case by simp
next
  case (Cons nd rest)
  from Cons.prems obtain row db1 where
    row: "replace_row (env i) project_name nd = Inr row"
    and ins: "insert_note db row = Inr db1"
    and tail: "insert_all db1 env (Suc i) project_name rest = (db', Inr u)"
    by (auto split: sum.splits)
  from insert_note_Inr [OF ins] have db1: "db1 = db\<lparr>tbl_notes := tbl_notes db @ [row]\<rparr>" .
  from Cons.IH [OF tail] obtain rows where
    rows: "db' = db1\<lparr>tbl_notes := tbl_notes db1 @ rows\<rparr>" "length rows = length rest"
      "\<forall>k < length rest. replace_row (env (Suc i + k)) project_name (rest ! k) = Inr (rows ! k)"
    by blast
  have "db' = db\<lparr>tbl_notes := tbl_notes db @ (row # rows)\<rparr>"
    using rows(1) db1 by simp
  moreover have "length (row # rows) = length (nd # rest)"
    using rows(2) by simp
  moreover have "\<forall>k < length (nd # rest).
      replace_row (env (i + k)) project_name ((nd # rest) ! k) = Inr ((row # rows) ! k)"
  proof (intro allI impI)
    fix k assume "k < length (nd # rest)"
    then show "replace_row (env (i + k)) project_name ((nd # rest) ! k) = Inr ((row # rows) ! k)"
      using row rows(3) by (cases k) auto
  qed
  ultimately show ?case by blast
qed

lemma dict_item_Inr: "dict_item k x = Inr v \<Longrightarrow> v = (case x of Given a \<Rightarrow> Some a | other \<Rightarrow> None)"
  by (cases x) auto

lemma replace_row_Inr:
  assumes "replace_row e project_name nd = Inr row"
  obtains i ts where
    "dict_get_default (nd_id nd) (Some (str_uuid (fresh_uuid e))) = Some i"
    "(case dict_get_default (nd_timestamp nd) (Some (isoformat (now1 e))) of
              None \<Rightarrow> Some None
            | Some t \<Rightarrow> (case timestamp_in t of None \<Rightarrow> None | Some d \<Rightarrow> Some (Some d))) = Some ts"
    "n_id row = i" "n_timestamp row = ts"
    "n_author row = (case nd_author nd of Given a \<Rightarrow> Some a | other \<Rightarrow> None)"
    "n_user_id row = dict_get_default (nd_user_id nd) (n_author row)"
    "n_state row = dict_get_default (nd_state nd) (Some ''todo'')"
    "n_project_name row = Some project_name" "n_project_id row = None"
    "n_cwe row = dict_get (nd_cwe nd)" "n_description row = dict_get (nd_description nd)"
    "n_severity row = None" "n_source row = ''native''"
    "n_file_path row = (case nd_file_path nd of Given a \<Rightarrow> Some a | other \<Rightarrow> None)"
    "n_line_number row = (case nd_line_number nd of Given a \<Rightarrow> Some a | other \<Rightarrow> None)"
    "n_comment row = (case nd_comment nd of Given a \<Rightarrow> Some a | other \<Rightarrow> None)"
  using assms
  by (auto simp: replace_row_def split: sum.splits option.splits dest!: dict_item_Inr)

lemma replace_row_fields:
  assumes "replace_row e project_name nd = Inr row"
  shows "Some (n_id row)
           = (case nd_id nd of Absent \<Rightarrow> Some (str_uuid (fresh_uuid e))
              | Null \<Rightarrow> None | Given i \<Rightarrow> Some i)"
    and "n_user_id row
           = (case nd_user_id nd of Absent \<Rightarrow> n_author row | Null \<Rightarrow> None | Given u \<Rightarrow> Some u)"
    and "n_author row = (case nd_author nd of Given a \<Rightarrow> Some a | other \<Rightarrow> None)"
    and "n_timestamp row
           = (case nd_timestamp nd of Absent \<Rightarrow> Some (now1 e)
              | Null \<Rightarrow> None | Given t \<Rightarrow> timestamp_in t)"
    and "\<forall>t. nd_timestamp nd = Given t \<longrightarrow> timestamp_in t \<noteq> None"
    and "n_state row
           = (case nd_state nd of Absent \<Rightarrow> Some ''todo'' | Null \<Rightarrow> None | Given s \<Rightarrow> Some s)"
    and "n_project_name row = Some project_name"
proof -
  from assms obtain i ts where
    i: "dict_get_default (nd_id nd) (Some (str_uuid (fresh_uuid e))) = Some i"
    and ts: "(case dict_get_default (nd_timestamp nd) (Some (isoformat (now1 e))) of
              None \<Rightarrow> Some None
            | Some t \<Rightarrow> (case timestamp_in t of None \<Rightarrow> None | Some d \<Rightarrow> Some (Some d))) = Some ts"
    and row: "n_id row = i" "n_timestamp row = ts"
      "n_author row = (case nd_author nd of Given a \<Rightarrow> Some a | other \<Rightarrow> None)"
      "n_user_id row = dict_get_default (nd_user_id nd) (n_author row)"
      "n_state row = dict_get_default (nd_state nd) (Some ''todo'')"
      "n_project_name row = Some project_name"
    by (rule replace_row_Inr)
  show "Some (n_id row)
           = (case nd_id nd of Absent \<Rightarrow> Some (str_uuid (fresh_uuid e))
              | Null \<Rightarrow> None | Given i \<Rightarrow> Some i)"
    using i row(1) by (cases "nd_id nd") auto
  show "n_user_id row
           = (case nd_user_id nd of Absent \<Rightarrow> n_author row | Null \<Rightarrow> None | Given u \<Rightarrow> Some u)"
    using row(4) by (cases "nd_user_id nd") auto
  show "n_author row = (case nd_author nd of Given a \<Rightarrow> Some a | other \<Rightarrow> None)"
    by (rule row(3))
  show "n_timestamp row
           = (case nd_timestamp nd of Absent \<Rightarrow> Some (now1 e)
              | Null \<Rightarrow> None | Given t \<Rightarrow> timestamp_in t)"
    using ts row(2)
    by (cases "nd_timestamp nd") (auto simp: isoformat_def split: option.splits)
  show "\<forall>t. nd_timestamp nd = Given t \<longrightarrow> timestamp_in t \<noteq> None"
    using ts by (auto split: option.splits dest: sym)
  show "n_state row
           = (case nd_state nd of Absent \<Rightarrow> Some ''todo'' | Null \<Rightarrow> None | Given s \<Rightarrow> Some s)"
    using row(5) by (cases "nd_state nd") auto
  show "n_project_name row = Some project_name"
    by (rule row(6))
qed

lemma replace_all_notes_Inr:
  assumes "replace_all_notes db env project_name data = (db', Inr resp)"
  shows "insert_all (insert_project_do_nothing (delete_notes_by_project_name db project_name)
                       project_name)
           env 0 project_name (case data ''notes'' of None \<Rightarrow> [] | Some ns \<Rightarrow> ns) = (db', Inr ())
       \<and> resp = \<lparr>resp_success = True, resp_count = length (case data ''notes'' of None \<Rightarrow> [] | Some ns \<Rightarrow> ns)\<rparr>"
  using assms
  by (auto simp: replace_all_notes_def Let_def split: prod.splits sum.splits)

lemma tbl_notes_insert_project_do_nothing:
  "tbl_notes (insert_project_do_nothing db name) = tbl_notes db"
  by (auto simp: insert_project_do_nothing_def insert_project_def split: sum.splits)

text \<open>
  C7. When a bulk replace succeeds it reports the number of notes given, and the notes
  table is what it held for other project names followed by one row per given note, in
  order. In the row of a note, the identifier, the \<open>user_id\<close>, the timestamp and the
  state are what the note gives under their keys (a null is stored as NULL, a timestamp
  text as the instant it denotes, and no successful replace has a null identifier); where
  the note has no such key they are the text of a generated UUID, the author of the note,
  the current time and \<open>todo\<close>.
\<close>

theorem replace_all_notes_stores:
  assumes "replace_all_notes db env project_name data = (db', Inr resp)"
    and "ns = (case data ''notes'' of None \<Rightarrow> [] | Some l \<Rightarrow> l)"
  shows "resp_count resp = length ns
    \<and> (\<exists>rows. tbl_notes db'
          = filter (\<lambda>n. n_project_name n \<noteq> Some project_name) (tbl_notes db) @ rows
        \<and> length rows = length ns
        \<and> (\<forall>k < length ns.
             Some (n_id (rows ! k))
               = (case nd_id (ns ! k) of Absent \<Rightarrow> Some (str_uuid (fresh_uuid (env k)))
                  | Null \<Rightarrow> None | Given i \<Rightarrow> Some i)
           \<and> n_user_id (rows ! k)
               = (case nd_user_id (ns ! k) of Absent \<Rightarrow> n_author (rows ! k)
                  | Null \<Rightarrow> None | Given u \<Rightarrow> Some u)
           \<and> n_author (rows ! k)
               = (case nd_author (ns ! k) of Given a \<Rightarrow> Some a | other \<Rightarrow> None)
           \<and> n_timestamp (rows ! k)
               = (case nd_timestamp (ns ! k) of Absent \<Rightarrow> Some (now1 (env k))
                  | Null \<Rightarrow> None | Given t \<Rightarrow> timestamp_in t)
           \<and> (\<forall>t. nd_timestamp (ns ! k) = Given t \<longrightarrow> timestamp_in t \<noteq> None)
           \<and> n_state (rows ! k)
               = (case nd_state (ns ! k) of Absent \<Rightarrow> Some ''todo''
                  | Null \<Rightarrow> None | Given s \<Rightarrow> Some s)
           \<and> n_project_name (rows ! k) = Some project_name))"
proof -
  let ?db2 = "insert_project_do_nothing (delete_notes_by_project_name db project_name) project_name"
  from replace_all_notes_Inr [OF assms(1)] assms(2)
  have run: "insert_all ?db2 env 0 project_name ns = (db', Inr ())"
    and resp: "resp = \<lparr>resp_success = True, resp_count = length ns\<rparr>"
    by simp_all
  from insert_all_rows [OF run] obtain rows where
    rows: "db' = ?db2\<lparr>tbl_notes := tbl_notes ?db2 @ rows\<rparr>" "length rows = length ns"
      "\<forall>k < length ns. replace_row (env (0 + k)) project_name (ns ! k) = Inr (rows ! k)"
    by blast
  have tbl: "tbl_notes db'
      = filter (\<lambda>n. n_project_name n \<noteq> Some project_name) (tbl_notes db) @ rows"
    using rows(1)
    by (simp add: tbl_notes_insert_project_do_nothing delete_notes_by_project_name_def)
  have each: "\<forall>k < length ns.
             Some (n_id (rows ! k))
               = (case nd_id (ns ! k) of Absent \<Rightarrow> Some (str_uuid (fresh_uuid (env k)))
                  | Null \<Rightarrow> None | Given i \<Rightarrow> Some i)
           \<and> n_user_id (rows ! k)
               = (case nd_user_id (ns ! k) of Absent \<Rightarrow> n_author (rows ! k)
                  | Null \<Rightarrow> None | Given u \<Rightarrow> Some u)
           \<and> n_author (rows ! k)
               = (case nd_author (ns ! k) of Given a \<Rightarrow> Some a | other \<Rightarrow> None)
           \<and> n_timestamp (rows ! k)
               = (case nd_timestamp (ns ! k) of Absent \<Rightarrow> Some (now1 (env k))
                  | Null \<Rightarrow> None | Given t \<Rightarrow> timestamp_in t)
           \<and> (\<forall>t. nd_timestamp (ns ! k) = Given t \<longrightarrow> timestamp_in t \<noteq> None)
           \<and> n_state (rows ! k)
               = (case nd_state (ns ! k) of Absent \<Rightarrow> Some ''todo''
                  | Null \<Rightarrow> None | Given s \<Rightarrow> Some s)
           \<and> n_project_name (rows ! k) = Some project_name"
  proof (intro allI impI)
    fix k assume "k < length ns"
    with rows(3) have r: "replace_row (env k) project_name (ns ! k) = Inr (rows ! k)"
      by simp
    from replace_row_fields [OF r]
    show "Some (n_id (rows ! k))
               = (case nd_id (ns ! k) of Absent \<Rightarrow> Some (str_uuid (fresh_uuid (env k)))
                  | Null \<Rightarrow> None | Given i \<Rightarrow> Some i)
           \<and> n_user_id (rows ! k)
               = (case nd_user_id (ns ! k) of Absent \<Rightarrow> n_author (rows ! k)
                  | Null \<Rightarrow> None | Given u \<Rightarrow> Some u)
           \<and> n_author (rows ! k)
               = (case nd_author (ns ! k) of Given a \<Rightarrow> Some a | other \<Rightarrow> None)
           \<and> n_timestamp (rows ! k)
               = (case nd_timestamp (ns ! k) of Absent \<Rightarrow> Some (now1 (env k))
                  | Null \<Rightarrow> None | Given t \<Rightarrow> timestamp_in t)
           \<and> (\<forall>t. nd_timestamp (ns ! k) = Given t \<longrightarrow> timestamp_in t \<noteq> None)
           \<and> n_state (rows ! k)
               = (case nd_state (ns ! k) of Absent \<Rightarrow> Some ''todo''
                  | Null \<Rightarrow> None | Given s \<Rightarrow> Some s)
           \<and> n_project_name (rows ! k) = Some project_name"
      by blast
  qed
  have "resp_count resp = length ns" using resp by simp
  with tbl rows(2) each show ?thesis by blast
qed

theorem replace_all_notes_stores_witness:
  "replace_all_notes empty_database env_seq ''demo'' three_notes_body
     = (after_replace_three, Inr \<lparr>resp_success = True, resp_count = 3\<rparr>)
   \<and> three_notes_body ''notes'' = Some [demo_data, given_data, null_data]
   \<and> nd_id demo_data = Absent \<and> nd_user_id demo_data = Absent
   \<and> nd_timestamp demo_data = Absent \<and> nd_state demo_data = Absent
   \<and> nd_user_id null_data = Null \<and> nd_timestamp null_data = Null
   \<and> nd_state null_data = Null
   \<and> length (tbl_notes after_replace_three) = 3
   \<and> n_id (tbl_notes after_replace_three ! 0) = str_uuid 1
   \<and> n_user_id (tbl_notes after_replace_three ! 0) = Some ''alice''
   \<and> n_timestamp (tbl_notes after_replace_three ! 0) = Some 100
   \<and> n_state (tbl_notes after_replace_three ! 0) = Some ''todo''
   \<and> n_id (tbl_notes after_replace_three ! 1) = ''n-2''
   \<and> n_user_id (tbl_notes after_replace_three ! 1) = Some ''u-bob''
   \<and> n_timestamp (tbl_notes after_replace_three ! 1) = Some 55
   \<and> n_state (tbl_notes after_replace_three ! 1) = Some ''vulnerable''
   \<and> n_id (tbl_notes after_replace_three ! 2) = ''n-3''
   \<and> n_user_id (tbl_notes after_replace_three ! 2) = None
   \<and> n_timestamp (tbl_notes after_replace_three ! 2) = None
   \<and> n_state (tbl_notes after_replace_three ! 2) = None"
proof -
  let ?ns = "[demo_data, given_data, null_data]"
  have run: "replace_all_notes empty_database env_seq ''demo'' three_notes_body
     = (after_replace_three, Inr \<lparr>resp_success = True, resp_count = 3\<rparr>)"
    by code_simp
  have body: "?ns = (case three_notes_body ''notes'' of None \<Rightarrow> [] | Some l \<Rightarrow> l)"
    "three_notes_body ''notes'' = Some ?ns"
    by (simp_all add: three_notes_body_def)
  have absent: "nd_id demo_data = Absent" "nd_user_id demo_data = Absent"
    "nd_timestamp demo_data = Absent" "nd_state demo_data = Absent"
    and author: "nd_author demo_data = Given ''alice''"
    by (simp_all add: demo_data_def)
  have given: "nd_id given_data = Given ''n-2''" "nd_user_id given_data = Given ''u-bob''"
    "nd_timestamp given_data = Given (IsoText 55)" "nd_state given_data = Given ''vulnerable''"
    by (simp_all add: given_data_def)
  have nulls: "nd_user_id null_data = Null" "nd_timestamp null_data = Null"
    "nd_state null_data = Null"
    and third: "nd_id null_data = Given ''n-3''"
    by (simp_all add: null_data_def)
  have env: "fresh_uuid (env_seq 0) = 1" "now1 (env_seq 0) = 100"
    by (simp_all add: env_seq_def demo_env_def)
  from replace_all_notes_stores [OF run body(1)] obtain rows where
    rows: "tbl_notes after_replace_three
        = filter (\<lambda>n. n_project_name n \<noteq> Some ''demo'') (tbl_notes empty_database) @ rows"
      "length rows = length ?ns"
    and each: "\<forall>k < length ?ns.
             Some (n_id (rows ! k))
               = (case nd_id (?ns ! k) of Absent \<Rightarrow> Some (str_uuid (fresh_uuid (env_seq k)))
                  | Null \<Rightarrow> None | Given i \<Rightarrow> Some i)
           \<and> n_user_id (rows ! k)
               = (case nd_user_id (?ns ! k) of Absent \<Rightarrow> n_author (rows ! k)
                  | Null \<Rightarrow> None | Given u \<Rightarrow> Some u)
           \<and> n_author (rows ! k)
               = (case nd_author (?ns ! k) of Given a \<Rightarrow> Some a | other \<Rightarrow> None)
           \<and> n_timestamp (rows ! k)
               = (case nd_timestamp (?ns ! k) of Absent \<Rightarrow> Some (now1 (env_seq k))
                  | Null \<Rightarrow> None | Given t \<Rightarrow> timestamp_in t)
           \<and> (\<forall>t. nd_timestamp (?ns ! k) = Given t \<longrightarrow> timestamp_in t \<noteq> None)
           \<and> n_state (rows ! k)
               = (case nd_state (?ns ! k) of Absent \<Rightarrow> Some ''todo''
                  | Null \<Rightarrow> None | Given s \<Rightarrow> Some s)
           \<and> n_project_name (rows ! k) = Some ''demo''"
    by blast
  from rows have tbl: "tbl_notes after_replace_three = rows" "length rows = 3"
    by (simp_all add: empty_database_def)
  from each [rule_format, of 0] each [rule_format, of 1] each [rule_format, of 2]
  have "n_id (rows ! 0) = str_uuid 1" "n_user_id (rows ! 0) = Some ''alice''"
    "n_timestamp (rows ! 0) = Some 100" "n_state (rows ! 0) = Some ''todo''"
    "n_id (rows ! 1) = ''n-2''" "n_user_id (rows ! 1) = Some ''u-bob''"
    "n_timestamp (rows ! 1) = Some 55" "n_state (rows ! 1) = Some ''vulnerable''"
    "n_id (rows ! 2) = ''n-3''" "n_user_id (rows ! 2) = None"
    "n_timestamp (rows ! 2) = None" "n_state (rows ! 2) = None"
    by (simp_all add: absent author given nulls third env)
  with run body(2) absent nulls tbl show ?thesis by simp
qed

section \<open>Listings\<close>

lemma replies_column_eq:
  "replies_column build db n =
     Some (map build (filter (\<lambda>r. r_parent_id r = n_id n) (tbl_replies db)))"
proof (cases "filter (\<lambda>r. r_parent_id r = n_id n) (tbl_replies db)")
  case Nil
  then show ?thesis
    by (simp add: replies_column_def left_join_replies_def json_agg_filter_def coalesce_def)
next
  case (Cons m ms)
  have "concat (map (\<lambda>ro. case ro of None \<Rightarrow> [] | Some r \<Rightarrow> [build r]) (map Some xs))
          = map build xs" for xs
    by (induction xs) auto
  from this [of "m # ms"] Cons show ?thesis
    by (simp add: replies_column_def left_join_replies_def json_agg_filter_def coalesce_def)
qed

lemma replies_column_never_null:
  "replies_column build db n \<noteq> None
   \<and> ((\<forall>r \<in> set (tbl_replies db). r_parent_id r \<noteq> n_id n) \<longrightarrow>
        replies_column build db n = Some [])"
  by (simp add: replies_column_eq filter_empty_conv)

lemma set_place_by: "set (place_by le x xs) = insert x (set xs)"
  by (induction xs) auto

lemma mset_place_by: "mset (place_by le x xs) = add_mset x (mset xs)"
  by (induction xs) auto

lemma mset_order_by: "mset (order_by le xs) = mset xs"
  by (induction xs) (auto simp: order_by_def mset_place_by)

lemma set_order_by: "set (order_by le xs) = set xs"
  using mset_order_by [of le xs] by (metis set_mset_mset)

lemma sorted_place_by:
  assumes total: "\<And>a b. le a b \<or> le b a" and trans: "\<And>a b c. le a b \<Longrightarrow> le b c \<Longrightarrow> le a c"
  shows "sorted_wrt le xs \<Longrightarrow> sorted_wrt le (place_by le x xs)"
proof (induction xs)
  case Nil
  then show ?case by simp
next
  case (Cons y ys)
  show ?case
  proof (cases "le x y")
    case True
    with Cons.prems trans show ?thesis by auto
  next
    case False
    with total have "le y x" by blast
    with Cons False show ?thesis by (auto simp: set_place_by)
  qed
qed

lemma sorted_order_by:
  assumes total: "\<And>a b. le a b \<or> le b a" and trans: "\<And>a b c. le a b \<Longrightarrow> le b c \<Longrightarrow> le a c"
  shows "sorted_wrt le (order_by le xs)"
proof (induction xs)
  case Nil
  then show ?case by (simp add: order_by_def)
next
  case (Cons x xs)
  from sorted_place_by [of le, OF total trans Cons.IH]
  show ?case by (simp add: order_by_def)
qed

lemma asc_nulls_last_total: "asc_nulls_last a b \<or> asc_nulls_last b a"
  by (cases a; cases b) auto

lemma asc_nulls_last_trans: "asc_nulls_last a b \<Longrightarrow> asc_nulls_last b c \<Longrightarrow> asc_nulls_last a c"
  by (cases a; cases b; cases c) auto

lemma instant_of_iso_native: "instant_of (iso_if_set (native c)) = c"
  by (cases c) (simp_all add: iso_if_set_def native_def isoformat_def)

lemma in_project_iff:
  "in_project db name n =
     (\<exists>p \<in> set (tbl_projects db). n_project_id n = Some (p_id p) \<and> p_name p = name)"
  by (simp add: in_project_def list_ex_iff)

lemma get_project_notes_eq:
  "get_project_notes db name =
     Inr (map (project_note_dict db name)
            (order_by (\<lambda>a b. desc_nulls_first (n_timestamp a) (n_timestamp b))
               (filter (in_project db name) (tbl_notes db))))"
  by (simp add: get_project_notes_def select_project_notes_def project_note_dict_def
        dict_row_def comp_def)

lemma project_note_dict_fields:
  "d_id (project_note_dict db name n) = n_id n"
  "d_file_path (project_note_dict db name n) = n_file_path n"
  "d_line_number (project_note_dict db name n) = n_line_number n"
  "d_author (project_note_dict db name n) = n_author n"
  "d_comment (project_note_dict db name n) = n_comment n"
  "d_state (project_note_dict db name n) = n_state n"
  "instant_of (d_timestamp (project_note_dict db name n)) = n_timestamp n"
  "d_replies (project_note_dict db name n) = replies_column reply_object db n"
  by (simp_all add: project_note_dict_def dict_row_def instant_of_iso_native)

text \<open>
  C8. The listing of a project never raises. It returns, once each, exactly the notes
  whose \<open>project_id\<close> is the identifier of a project row of that name; they come newest
  first by the note's \<open>timestamp\<close> (a note without one comes first); and each carries
  under \<open>replies\<close> the objects of the replies whose parent it is, in the order of the
  replies table.
\<close>

theorem get_project_notes_all_newest_first:
  "\<exists>res. get_project_notes db project_name = Inr res
     \<and> mset (map (\<lambda>d. (d_id d, d_file_path d, d_line_number d, d_author d, d_comment d,
                        d_state d)) res)
       = mset (map (\<lambda>n. (n_id n, n_file_path n, n_line_number n, n_author n, n_comment n,
                          n_state n))
                 (filter (\<lambda>n. \<exists>p \<in> set (tbl_projects db).
                                  n_project_id n = Some (p_id p) \<and> p_name p = project_name)
                    (tbl_notes db)))
     \<and> sorted_wrt (\<lambda>a b. desc_nulls_first (instant_of (d_timestamp a))
                             (instant_of (d_timestamp b))) res
     \<and> (\<forall>i j x y. i < j \<longrightarrow> j < length res \<longrightarrow>
            instant_of (d_timestamp (res ! i)) = Some x \<longrightarrow>
            instant_of (d_timestamp (res ! j)) = Some y \<longrightarrow> y \<le> x)
     \<and> (\<forall>d \<in> set res.
            d_replies d = Some (map reply_object
                                  (filter (\<lambda>r. r_parent_id r = d_id d) (tbl_replies db))))"
proof -
  let ?le = "\<lambda>a b. desc_nulls_first (n_timestamp a) (n_timestamp b)"
  let ?rows = "order_by ?le (filter (in_project db project_name) (tbl_notes db))"
  let ?res = "map (project_note_dict db project_name) ?rows"
  have run: "get_project_notes db project_name = Inr ?res"
    by (rule get_project_notes_eq)
  have same: "in_project db project_name
      = (\<lambda>n. \<exists>p \<in> set (tbl_projects db).
                n_project_id n = Some (p_id p) \<and> p_name p = project_name)"
    by (rule ext) (rule in_project_iff)
  have "map (\<lambda>d. (d_id d, d_file_path d, d_line_number d, d_author d, d_comment d,
                        d_state d)) ?res
      = map (\<lambda>n. (n_id n, n_file_path n, n_line_number n, n_author n, n_comment n,
                          n_state n)) ?rows"
    by (simp add: comp_def project_note_dict_fields)
  also have "mset \<dots> = image_mset (\<lambda>n. (n_id n, n_file_path n, n_line_number n, n_author n,
                          n_comment n, n_state n)) (mset ?rows)"
    by simp
  also have "mset ?rows = mset (filter (in_project db project_name) (tbl_notes db))"
    by (rule mset_order_by)
  finally have all: "mset (map (\<lambda>d. (d_id d, d_file_path d, d_line_number d, d_author d, d_comment d,
                        d_state d)) ?res)
       = mset (map (\<lambda>n. (n_id n, n_file_path n, n_line_number n, n_author n, n_comment n,
                          n_state n))
                 (filter (\<lambda>n. \<exists>p \<in> set (tbl_projects db).
                                  n_project_id n = Some (p_id p) \<and> p_name p = project_name)
                    (tbl_notes db)))"
    unfolding same by simp
  have "sorted_wrt ?le ?rows"
  proof (rule sorted_order_by)
    show "?le a b \<or> ?le b a" for a b :: note_row
      using asc_nulls_last_total by (simp add: desc_nulls_first_def)
    show "?le a b \<Longrightarrow> ?le b c \<Longrightarrow> ?le a c" for a b c :: note_row
      using asc_nulls_last_trans by (auto simp: desc_nulls_first_def)
  qed
  then have sorted: "sorted_wrt (\<lambda>a b. desc_nulls_first (instant_of (d_timestamp a))
                             (instant_of (d_timestamp b))) ?res"
    by (simp add: sorted_wrt_map project_note_dict_fields)
  have nth: "\<forall>i j x y. i < j \<longrightarrow> j < length ?res \<longrightarrow>
            instant_of (d_timestamp (?res ! i)) = Some x \<longrightarrow>
            instant_of (d_timestamp (?res ! j)) = Some y \<longrightarrow> y \<le> x"
  proof (intro allI impI)
    fix i j x y
    assume ij: "i < j" "j < length ?res"
      and x: "instant_of (d_timestamp (?res ! i)) = Some x"
      and y: "instant_of (d_timestamp (?res ! j)) = Some y"
    from sorted_wrt_nth_less [OF sorted ij]
    have "desc_nulls_first (instant_of (d_timestamp (?res ! i)))
                             (instant_of (d_timestamp (?res ! j)))" .
    with x y show "y \<le> x" by (simp add: desc_nulls_first_def)
  qed
  have replies: "\<forall>d \<in> set ?res.
            d_replies d = Some (map reply_object
                                  (filter (\<lambda>r. r_parent_id r = d_id d) (tbl_replies db)))"
    by (auto simp: project_note_dict_fields replies_column_eq)
  from run all sorted nth replies show ?thesis by blast
qed

theorem get_project_notes_all_newest_first_witness:
  "map d_id (notes_of (get_project_notes with_reply ''demo'')) = [''00000000-0000-0000-0000-000000000002'', ''00000000-0000-0000-0000-000000000001'']
   \<and> map (\<lambda>d. instant_of (d_timestamp d)) (notes_of (get_project_notes with_reply ''demo''))
       = [Some 200, Some 100]
   \<and> map n_id (tbl_notes with_reply) = [''00000000-0000-0000-0000-000000000001'', ''00000000-0000-0000-0000-000000000002'']
   \<and> map n_project_id (tbl_notes with_reply) = [Some 1, Some 1]
   \<and> map (\<lambda>p. (p_id p, p_name p)) (tbl_projects with_reply) = [(1, ''demo'')]
   \<and> sorted_wrt (\<lambda>a b. desc_nulls_first (instant_of (d_timestamp a))
                          (instant_of (d_timestamp b)))
        (notes_of (get_project_notes with_reply ''demo''))
   \<and> map d_replies (notes_of (get_project_notes with_reply ''demo''))
       = [Some [],
          Some [[(''id'', JStr ''00000000-0000-0000-0000-000000000003''), (''parent_id'', JStr ''00000000-0000-0000-0000-000000000001''), (''author'', JStr ''bob''),
                 (''timestamp'', JTimestamp 300), (''comment'', JStr ''agreed'')]]]"
proof -
  from get_project_notes_all_newest_first [of with_reply "''demo''"] obtain res where
    run: "get_project_notes with_reply ''demo'' = Inr res"
    and sorted: "sorted_wrt (\<lambda>a b. desc_nulls_first (instant_of (d_timestamp a))
                          (instant_of (d_timestamp b))) res"
    by blast
  from run have res: "notes_of (get_project_notes with_reply ''demo'') = res"
    by (simp add: notes_of_def)
  have evaluated: "map d_id (notes_of (get_project_notes with_reply ''demo'')) = [''00000000-0000-0000-0000-000000000002'', ''00000000-0000-0000-0000-000000000001'']"
    "map (\<lambda>d. instant_of (d_timestamp d)) (notes_of (get_project_notes with_reply ''demo''))
       = [Some 200, Some 100]"
    "map n_id (tbl_notes with_reply) = [''00000000-0000-0000-0000-000000000001'', ''00000000-0000-0000-0000-000000000002'']"
    "map n_project_id (tbl_notes with_reply) = [Some 1, Some 1]"
    "map (\<lambda>p. (p_id p, p_name p)) (tbl_projects with_reply) = [(1, ''demo'')]"
    "map d_replies (notes_of (get_project_notes with_reply ''demo''))
       = [Some [],
          Some [[(''id'', JStr ''00000000-0000-0000-0000-000000000003''), (''parent_id'', JStr ''00000000-0000-0000-0000-000000000001''), (''author'', JStr ''bob''),
                 (''timestamp'', JTimestamp 300), (''comment'', JStr ''agreed'')]]]"
    by code_simp+
  from sorted res evaluated show ?thesis by simp
qed

text \<open>
  C9. In a note returned by any of the four queries (project, file, line, one note by
  identifier) the \<open>replies\<close> value is never null, and it is the empty list when no reply
  has that note as its parent.
\<close>

theorem replies_never_null:
  "(\<forall>res. get_project_notes db project_name = Inr res \<longrightarrow>
      (\<forall>d \<in> set res. d_replies d \<noteq> None
         \<and> ((\<forall>r \<in> set (tbl_replies db). r_parent_id r \<noteq> d_id d) \<longrightarrow> d_replies d = Some [])))
   \<and> (\<forall>res. get_file_notes db project_name path = Inr res \<longrightarrow>
      (\<forall>d \<in> set res. d_replies d \<noteq> None
         \<and> ((\<forall>r \<in> set (tbl_replies db). r_parent_id r \<noteq> d_id d) \<longrightarrow> d_replies d = Some [])))
   \<and> (\<forall>res. get_line_notes db project_name path line = Inr res \<longrightarrow>
      (\<forall>d \<in> set res. d_replies d \<noteq> None
         \<and> ((\<forall>r \<in> set (tbl_replies db). r_parent_id r \<noteq> d_id d) \<longrightarrow> d_replies d = Some [])))
   \<and> (\<forall>d. get_note_by_id db note_id = Inr d \<longrightarrow>
         d_replies d \<noteq> None
         \<and> ((\<forall>r \<in> set (tbl_replies db). r_parent_id r \<noteq> d_id d) \<longrightarrow> d_replies d = Some []))"
proof -
  have by_project: "\<forall>d \<in> set res. d_replies d \<noteq> None
         \<and> ((\<forall>r \<in> set (tbl_replies db). r_parent_id r \<noteq> d_id d) \<longrightarrow> d_replies d = Some [])"
    if "get_project_notes db project_name = Inr res" for res
  proof -
    from that have "res = map (project_note_dict db project_name)
            (order_by (\<lambda>a b. desc_nulls_first (n_timestamp a) (n_timestamp b))
               (filter (in_project db project_name) (tbl_notes db)))"
      by (simp add: get_project_notes_eq)
    then show ?thesis
      using replies_column_never_null [of reply_object db]
      by (auto simp: project_note_dict_fields)
  qed
  have by_file: "\<forall>d \<in> set res. d_replies d \<noteq> None
         \<and> ((\<forall>r \<in> set (tbl_replies db). r_parent_id r \<noteq> d_id d) \<longrightarrow> d_replies d = Some [])"
    if "get_file_notes db project_name path = Inr res" for res
    using that replies_column_never_null [of reply_object_user db]
    by (auto simp: get_file_notes_def set_order_by dict_row_def)
  have by_line: "\<forall>d \<in> set res. d_replies d \<noteq> None
         \<and> ((\<forall>r \<in> set (tbl_replies db). r_parent_id r \<noteq> d_id d) \<longrightarrow> d_replies d = Some [])"
    if "get_line_notes db project_name path line = Inr res" for res
    using that replies_column_never_null [of reply_object_user db]
    by (auto simp: get_line_notes_def set_order_by dict_row_def)
  have by_id: "d_replies d \<noteq> None
         \<and> ((\<forall>r \<in> set (tbl_replies db). r_parent_id r \<noteq> d_id d) \<longrightarrow> d_replies d = Some [])"
    if "get_note_by_id db note_id = Inr d" for d
  proof -
    from that obtain n where "d_replies d = replies_column reply_object db n" "d_id d = n_id n"
      by (auto simp: get_note_by_id_def Let_def dict_row_def split: list.splits)
    then show ?thesis
      using replies_column_never_null [of reply_object db n] by simp
  qed
  from by_project by_file by_line by_id show ?thesis by blast
qed

theorem replies_never_null_witness:
  "map d_id (notes_of (get_project_notes with_reply ''demo'')) = [''00000000-0000-0000-0000-000000000002'', ''00000000-0000-0000-0000-000000000001'']
   \<and> map r_parent_id (tbl_replies with_reply) = [''00000000-0000-0000-0000-000000000001'']
   \<and> d_replies (hd (notes_of (get_project_notes with_reply ''demo''))) = Some []
   \<and> (\<exists>d. get_note_by_id with_reply ''00000000-0000-0000-0000-000000000002'' = Inr d \<and> d_replies d = Some [])
   \<and> tbl_replies after_replace_two = []
   \<and> map d_replies (notes_of (get_file_notes after_replace_two ''demo'' ''a.py'')) = [Some []]
   \<and> map d_replies (notes_of (get_line_notes after_replace_two ''demo'' ''b.py'' 7)) = [Some []]"
proof -
  have listing: "map d_id (notes_of (get_project_notes with_reply ''demo'')) = [''00000000-0000-0000-0000-000000000002'', ''00000000-0000-0000-0000-000000000001'']"
    and table: "map r_parent_id (tbl_replies with_reply) = [''00000000-0000-0000-0000-000000000001'']"
    and none: "tbl_replies after_replace_two = []"
    by code_simp+
  obtain res where res: "get_project_notes with_reply ''demo'' = Inr res"
    by (simp add: get_project_notes_def)
  with listing obtain d ds where ds: "res = d # ds" "d_id d = ''00000000-0000-0000-0000-000000000002''"
    by (auto simp: notes_of_def)
  have no_reply: "\<forall>r \<in> set (tbl_replies with_reply). r_parent_id r \<noteq> ''00000000-0000-0000-0000-000000000002''"
    using table by (cases "tbl_replies with_reply") auto
  from replies_never_null [of with_reply "''demo''" "''a.py''" 10 "''00000000-0000-0000-0000-000000000002''"] res ds no_reply
  have "d_replies d = Some []" by auto
  with res ds have first: "d_replies (hd (notes_of (get_project_notes with_reply ''demo''))) = Some []"
    by (simp add: notes_of_def)
  have "case get_note_by_id with_reply ''00000000-0000-0000-0000-000000000002'' of Inr d \<Rightarrow> d_id d = ''00000000-0000-0000-0000-000000000002'' | Inl e \<Rightarrow> False"
    by code_simp
  then obtain e where e: "get_note_by_id with_reply ''00000000-0000-0000-0000-000000000002'' = Inr e" "d_id e = ''00000000-0000-0000-0000-000000000002''"
    by (cases "get_note_by_id with_reply ''00000000-0000-0000-0000-000000000002''") auto
  from replies_never_null [of with_reply "''demo''" "''a.py''" 10 "''00000000-0000-0000-0000-000000000002''"] e no_reply
  have second: "\<exists>d. get_note_by_id with_reply ''00000000-0000-0000-0000-000000000002'' = Inr d \<and> d_replies d = Some []"
    by auto
  have third: "map d_replies (notes_of (get_file_notes after_replace_two ''demo'' ''a.py'')) = [Some []]"
    "map d_replies (notes_of (get_line_notes after_replace_two ''demo'' ''b.py'' 7)) = [Some []]"
    by code_simp+
  from listing table first second none third show ?thesis by blast
qed

section \<open>What the writers leave unseen, and what the readers convert\<close>

lemma replies_column_cong:
  "tbl_replies db' = tbl_replies db \<Longrightarrow> replies_column build db' n = replies_column build db n"
  by (simp add: replies_column_def)

lemma insert_project_tables:
  "insert_project db name path = Inr (db1, i) \<Longrightarrow>
     tbl_notes db1 = tbl_notes db \<and> tbl_replies db1 = tbl_replies db
     \<and> (\<exists>p \<in> set (tbl_projects db1). p_id p = i \<and> p_name p = name)"
  by (auto simp: insert_project_def split: if_splits)

lemma create_note_Inr:
  assumes "create_note db env note = (db', Inr r)"
  shows "r = note\<lparr>sn_id := Some (str_uuid (fresh_uuid env))\<rparr>"
    and "\<exists>i. tbl_notes db' = tbl_notes db @ [create_row env i note]
           \<and> (\<exists>p \<in> set (tbl_projects db'). p_id p = i \<and> p_name p = sn_project_name note)"
    and "tbl_replies db' = tbl_replies db"
proof -
  from assms obtain db1 i where
    proj: "(case find (\<lambda>p. p_name p = sn_project_name note \<and> p_path p = Some ''/'')
                  (tbl_projects db) of
              None \<Rightarrow> insert_project db (sn_project_name note) (Some ''/'')
            | Some project_row \<Rightarrow> Inr (db, p_id project_row)) = Inr (db1, i)"
    and ins: "insert_note db1 (create_row env i note) = Inr db'"
    and r: "r = note\<lparr>sn_id := Some (str_uuid (fresh_uuid env))\<rparr>"
    by (auto simp: create_note_def split: sum.splits prod.splits)
  have db1: "tbl_notes db1 = tbl_notes db \<and> tbl_replies db1 = tbl_replies db
     \<and> (\<exists>p \<in> set (tbl_projects db1). p_id p = i \<and> p_name p = sn_project_name note)"
  proof (cases "find (\<lambda>p. p_name p = sn_project_name note \<and> p_path p = Some ''/'')
                  (tbl_projects db)")
    case None
    with proj show ?thesis by (auto dest: insert_project_tables)
  next
    case (Some p)
    with proj have "db1 = db" "i = p_id p" by simp_all
    moreover from Some have "p \<in> set (tbl_projects db) \<and> p_name p = sn_project_name note"
      by (auto simp: find_Some_iff)
    ultimately show ?thesis by auto
  qed
  from insert_note_Inr [OF ins] have db': "db' = db1\<lparr>tbl_notes := tbl_notes db1 @ [create_row env i note]\<rparr>" .
  show "r = note\<lparr>sn_id := Some (str_uuid (fresh_uuid env))\<rparr>" by (rule r)
  show "\<exists>i. tbl_notes db' = tbl_notes db @ [create_row env i note]
           \<and> (\<exists>p \<in> set (tbl_projects db'). p_id p = i \<and> p_name p = sn_project_name note)"
    using db1 db' by auto
  show "tbl_replies db' = tbl_replies db"
    using db1 db' by simp
qed

text \<open>The answer of a successful create: a 36-character identifier, the request otherwise.\<close>

lemma create_note_response:
  assumes "create_note db env note = (db', Inr r)"
  shows "\<exists>i. sn_id r = Some i \<and> length i = 36"
    and "sn_state r = sn_state note" and "sn_source r = sn_source note"
  using create_note_Inr(1) [OF assms] by (simp_all add: length_str_uuid)

text \<open>The row of a successful create refers to a project row of the note's project name.\<close>

lemma create_note_row_has_project:
  assumes "create_note db env note = (db', Inr r)"
  shows "\<exists>i. n_project_id (last (tbl_notes db')) = Some i
           \<and> (\<exists>p \<in> set (tbl_projects db'). p_id p = i \<and> p_name p = sn_project_name note)"
  using create_note_Inr(2) [OF assms] by (auto simp: create_row_def)

text \<open>A create changes no listing of a file and no listing of a line.\<close>

lemma create_note_unseen_by_name:
  assumes "create_note db env note = (db', Inr r)"
  shows "get_line_notes db' project_name path line = get_line_notes db project_name path line"
    and "get_file_notes db' project_name path = get_file_notes db project_name path"
proof -
  from create_note_Inr(2,3) [OF assms] obtain i where
    rows: "tbl_notes db' = tbl_notes db @ [create_row env i note]"
    and replies: "tbl_replies db' = tbl_replies db"
    by blast
  have unnamed: "n_project_name (create_row env i note) = None"
    by (simp add: create_row_def)
  show "get_line_notes db' project_name path line = get_line_notes db project_name path line"
    by (simp add: get_line_notes_def rows unnamed replies_column_cong [OF replies])
  show "get_file_notes db' project_name path = get_file_notes db project_name path"
    by (simp add: get_file_notes_def rows unnamed replies_column_cong [OF replies])
qed

lemma replace_row_unlinked:
  "replace_row e project_name nd = Inr row \<Longrightarrow> n_project_id row = None"
  by (auto elim: replace_row_Inr)

lemma insert_all_unlinked:
  "insert_all db env i project_name ns = (db', r) \<Longrightarrow>
     \<exists>rows. tbl_notes db' = tbl_notes db @ rows \<and> (\<forall>n \<in> set rows. n_project_id n = None)"
proof (induction ns arbitrary: db i)
  case Nil
  then show ?case by simp
next
  case (Cons nd rest)
  show ?case
  proof (cases "replace_row (env i) project_name nd")
    case (Inl e)
    with Cons.prems show ?thesis by simp
  next
    case (Inr row)
    show ?thesis
    proof (cases "insert_note db row")
      case (Inl e)
      with Inr Cons.prems show ?thesis by simp
    next
      case inserted: (Inr db1)
      with Inr Cons.prems have "insert_all db1 env (Suc i) project_name rest = (db', r)"
        by simp
      from Cons.IH [OF this] obtain rows where
        "tbl_notes db' = tbl_notes db1 @ rows" "\<forall>n \<in> set rows. n_project_id n = None"
        by blast
      moreover from insert_note_Inr [OF inserted] have "tbl_notes db1 = tbl_notes db @ [row]"
        by simp
      moreover from replace_row_unlinked [OF Inr] have "n_project_id row = None" .
      ultimately have "tbl_notes db' = tbl_notes db @ (row # rows)"
        "\<forall>n \<in> set (row # rows). n_project_id n = None"
        by simp_all
      then show ?thesis by blast
    qed
  qed
qed

text \<open>
  Whatever a bulk replace answers, the notes table afterwards is the rows it kept followed
  by rows without a \<open>project_id\<close>.
\<close>

lemma replace_all_notes_unlinked:
  assumes "replace_all_notes db env project_name data = (db', r)"
  shows "\<exists>rows. tbl_notes db'
           = filter (\<lambda>n. n_project_name n \<noteq> Some project_name) (tbl_notes db) @ rows
         \<and> (\<forall>n \<in> set rows. n_project_id n = None)"
proof -
  let ?db2 = "insert_project_do_nothing (delete_notes_by_project_name db project_name) project_name"
  let ?ns = "case data ''notes'' of None \<Rightarrow> [] | Some ns \<Rightarrow> ns"
  obtain db3 r3 where run: "insert_all ?db2 env 0 project_name ?ns = (db3, r3)"
    by (cases "insert_all ?db2 env 0 project_name ?ns") auto
  with assms have "db' = db3"
    by (auto simp: replace_all_notes_def Let_def split: sum.splits)
  with insert_all_unlinked [OF run] show ?thesis
    by (simp add: tbl_notes_insert_project_do_nothing delete_notes_by_project_name_def)
qed

text \<open>On a notes table that was empty, no listing of a project shows a note after a bulk replace.\<close>

lemma replace_all_notes_unlisted:
  assumes "replace_all_notes db env project_name data = (db', r)" and "tbl_notes db = []"
  shows "get_project_notes db' name = Inr []"
proof -
  from replace_all_notes_unlinked [OF assms(1)] assms(2)
  have "\<forall>n \<in> set (tbl_notes db'). n_project_id n = None" by auto
  then have "filter (in_project db' name) (tbl_notes db') = []"
    by (auto simp: filter_empty_conv in_project_iff)
  then show ?thesis
    by (simp add: get_project_notes_eq order_by_def)
qed

lemma native_not_text: "\<not> is_text (native c)"
  by (cases c) (simp_all add: native_def)

lemma iso_if_set_not_native: "\<not> is_native (iso_if_set (native c))"
  by (cases c) (simp_all add: native_def iso_if_set_def)

text \<open>The listings of a file and of a line never hold a timestamp as text.\<close>

lemma file_and_line_notes_never_text:
  assumes "d \<in> set (notes_of (get_file_notes db project_name path))
         \<or> d \<in> set (notes_of (get_line_notes db project_name path line))"
  shows "\<not> is_text (d_timestamp d) \<and> \<not> is_text (d_created_at d) \<and> \<not> is_text (d_updated_at d)"
  using assms
  by (auto simp: notes_of_def get_file_notes_def get_line_notes_def dict_row_def native_not_text)

text \<open>A note fetched by its identifier never holds a native datetime.\<close>

lemma note_by_id_never_native:
  assumes "get_note_by_id db note_id = Inr d"
  shows "\<not> is_native (d_timestamp d) \<and> \<not> is_native (d_created_at d) \<and> \<not> is_native (d_updated_at d)"
  using assms
  by (auto simp: get_note_by_id_def Let_def dict_row_def iso_if_set_not_native split: list.splits)

text \<open>
  The listing of a project converts \<open>timestamp\<close> and \<open>updated_at\<close> and leaves
  \<open>created_at\<close> as the column holds it.
\<close>

lemma project_notes_timestamps:
  assumes "d \<in> set (notes_of (get_project_notes db project_name))"
  shows "\<not> is_native (d_timestamp d) \<and> \<not> is_native (d_updated_at d) \<and> \<not> is_text (d_created_at d)"
  using assms
  by (auto simp: notes_of_def get_project_notes_eq project_note_dict_def dict_row_def
        iso_if_set_not_native native_not_text)

section \<open>When the two writers succeed\<close>

lemma replace_row_succeeds:
  assumes "nd_file_path nd \<noteq> Absent \<and> nd_line_number nd \<noteq> Absent
             \<and> nd_author nd \<noteq> Absent \<and> nd_comment nd \<noteq> Absent \<and> nd_id nd \<noteq> Null
             \<and> (\<forall>s. nd_timestamp nd \<noteq> Given (OtherText s))
             \<and> (\<forall>l. nd_line_number nd = Given l \<longrightarrow> - 2147483648 \<le> l \<and> l \<le> 2147483647)
             \<and> (\<forall>c. nd_cwe nd = Given c \<longrightarrow> length c \<le> 20)"
  shows "\<exists>row. replace_row e project_name nd = Inr row
           \<and> n_id row = (case nd_id nd of Given j \<Rightarrow> j | other \<Rightarrow> str_uuid (fresh_uuid e))
           \<and> n_project_id row = None
           \<and> check_note_values (n_line_number row) (n_cwe row) (n_severity row) (n_source row)
               = None"
proof -
  obtain f l a c where items: "dict_item ''file_path'' (nd_file_path nd) = Inr f"
    "dict_item ''line_number'' (nd_line_number nd) = Inr l"
    "dict_item ''author'' (nd_author nd) = Inr a"
    "dict_item ''comment'' (nd_comment nd) = Inr c"
    using assms
    by (cases "nd_file_path nd"; cases "nd_line_number nd"; cases "nd_author nd";
        cases "nd_comment nd") auto
  obtain ts where ts: "(case dict_get_default (nd_timestamp nd) (Some (isoformat (now1 e))) of
              None \<Rightarrow> Some None
            | Some t \<Rightarrow> (case timestamp_in t of None \<Rightarrow> None | Some d \<Rightarrow> Some (Some d))) = Some ts"
  proof (cases "nd_timestamp nd")
    case (Given t)
    with assms obtain d where "t = IsoText d" by (cases t) auto
    with Given that show ?thesis by simp
  qed (auto simp: isoformat_def)
  obtain i where i: "dict_get_default (nd_id nd) (Some (str_uuid (fresh_uuid e))) = Some i"
    "i = (case nd_id nd of Given j \<Rightarrow> j | other \<Rightarrow> str_uuid (fresh_uuid e))"
    using assms by (cases "nd_id nd") auto
  have line: "l = (case nd_line_number nd of Given x \<Rightarrow> Some x | other \<Rightarrow> None)"
    using items(2) by (rule dict_item_Inr)
  have "check_note_values l (dict_get (nd_cwe nd)) None ''native'' = None"
    using assms line
    by (cases "nd_line_number nd"; cases "nd_cwe nd")
      (auto simp: check_note_values_def dict_get_def)
  with items ts i show ?thesis
    by (simp add: replace_row_def)
qed

lemma insert_all_succeeds:
  assumes "\<forall>nd \<in> set ns. nd_file_path nd \<noteq> Absent \<and> nd_line_number nd \<noteq> Absent
             \<and> nd_author nd \<noteq> Absent \<and> nd_comment nd \<noteq> Absent \<and> nd_id nd \<noteq> Null
             \<and> (\<forall>s. nd_timestamp nd \<noteq> Given (OtherText s))
             \<and> (\<forall>l. nd_line_number nd = Given l \<longrightarrow> - 2147483648 \<le> l \<and> l \<le> 2147483647)
             \<and> (\<forall>c. nd_cwe nd = Given c \<longrightarrow> length c \<le> 20)"
    and "distinct (map (\<lambda>(k, nd). case nd_id nd of Given j \<Rightarrow> j
                             | other \<Rightarrow> str_uuid (fresh_uuid (env k)))
                     (zip [i..<i + length ns] ns))"
    and "set (map (\<lambda>(k, nd). case nd_id nd of Given j \<Rightarrow> j
                             | other \<Rightarrow> str_uuid (fresh_uuid (env k)))
                     (zip [i..<i + length ns] ns))
           \<inter> set (map n_id (tbl_notes db)) = {}"
  shows "\<exists>db'. insert_all db env i project_name ns = (db', Inr ())"
  using assms
proof (induction ns arbitrary: db i)
  case Nil
  then show ?case by simp
next
  case (Cons nd rest)
  let ?rid = "(\<lambda>(k, nd). case nd_id nd of Given j \<Rightarrow> j
                             | other \<Rightarrow> str_uuid (fresh_uuid (env k)))"
  have "[i..<i + length (nd # rest)] = i # [Suc i..<Suc i + length rest]"
    by (subst upt_rec) simp
  then have zip: "zip [i..<i + length (nd # rest)] (nd # rest)
      = (i, nd) # zip [Suc i..<Suc i + length rest] rest"
    by (simp del: upt_Suc)
  from Cons.prems(1) have complete: "nd_file_path nd \<noteq> Absent \<and> nd_line_number nd \<noteq> Absent
             \<and> nd_author nd \<noteq> Absent \<and> nd_comment nd \<noteq> Absent \<and> nd_id nd \<noteq> Null
             \<and> (\<forall>s. nd_timestamp nd \<noteq> Given (OtherText s))
             \<and> (\<forall>l. nd_line_number nd = Given l \<longrightarrow> - 2147483648 \<le> l \<and> l \<le> 2147483647)
             \<and> (\<forall>c. nd_cwe nd = Given c \<longrightarrow> length c \<le> 20)"
    by simp
  from replace_row_succeeds [OF complete, of "env i" project_name] obtain row where
    row: "replace_row (env i) project_name nd = Inr row"
    and rid: "n_id row = ?rid (i, nd)" and unlinked: "n_project_id row = None"
    and fits: "check_note_values (n_line_number row) (n_cwe row) (n_severity row) (n_source row)
               = None"
    by auto
  from Cons.prems(3) rid have "n_id row \<notin> set (map n_id (tbl_notes db))"
    unfolding zip by auto
  with unlinked fits
  have ins: "insert_note db row = Inr (db\<lparr>tbl_notes := tbl_notes db @ [row]\<rparr>)"
    by (simp add: insert_note_def del: set_map)
  let ?db1 = "db\<lparr>tbl_notes := tbl_notes db @ [row]\<rparr>"
  have "\<exists>db'. insert_all ?db1 env (Suc i) project_name rest = (db', Inr ())"
  proof (rule Cons.IH)
    show "\<forall>nd \<in> set rest. nd_file_path nd \<noteq> Absent \<and> nd_line_number nd \<noteq> Absent
             \<and> nd_author nd \<noteq> Absent \<and> nd_comment nd \<noteq> Absent \<and> nd_id nd \<noteq> Null
             \<and> (\<forall>s. nd_timestamp nd \<noteq> Given (OtherText s))
             \<and> (\<forall>l. nd_line_number nd = Given l \<longrightarrow> - 2147483648 \<le> l \<and> l \<le> 2147483647)
             \<and> (\<forall>c. nd_cwe nd = Given c \<longrightarrow> length c \<le> 20)"
      using Cons.prems(1) by simp
    show "distinct (map ?rid (zip [Suc i..<Suc i + length rest] rest))"
      using Cons.prems(2) unfolding zip by simp
    show "set (map ?rid (zip [Suc i..<Suc i + length rest] rest))
           \<inter> set (map n_id (tbl_notes ?db1)) = {}"
      using Cons.prems(2,3) rid unfolding zip by auto
  qed
  with row ins show ?case by simp
qed

text \<open>
  A bulk replace succeeds when every given note has the four required keys, no null
  identifier, no unreadable timestamp, a line number and a CWE text that fit their
  columns, and the identifiers the rows will carry are different from each other and from
  those of the notes of other project names.
\<close>

lemma replace_all_notes_succeeds:
  assumes "ns = (case data ''notes'' of None \<Rightarrow> [] | Some l \<Rightarrow> l)"
    and "\<forall>nd \<in> set ns. nd_file_path nd \<noteq> Absent \<and> nd_line_number nd \<noteq> Absent
             \<and> nd_author nd \<noteq> Absent \<and> nd_comment nd \<noteq> Absent \<and> nd_id nd \<noteq> Null
             \<and> (\<forall>s. nd_timestamp nd \<noteq> Given (OtherText s))
             \<and> (\<forall>l. nd_line_number nd = Given l \<longrightarrow> - 2147483648 \<le> l \<and> l \<le> 2147483647)
             \<and> (\<forall>c. nd_cwe nd = Given c \<longrightarrow> length c \<le> 20)"
    and "distinct (map (\<lambda>(k, nd). case nd_id nd of Given j \<Rightarrow> j
                             | other \<Rightarrow> str_uuid (fresh_uuid (env k)))
                     (zip [0..<length ns] ns))"
    and "set (map (\<lambda>(k, nd). case nd_id nd of Given j \<Rightarrow> j
                             | other \<Rightarrow> str_uuid (fresh_uuid (env k)))
                     (zip [0..<length ns] ns))
           \<inter> set (map n_id (filter (\<lambda>n. n_project_name n \<noteq> Some project_name) (tbl_notes db)))
         = {}"
  shows "\<exists>db'. replace_all_notes db env project_name data
           = (db', Inr \<lparr>resp_success = True, resp_count = length ns\<rparr>)"
proof -
  let ?db2 = "insert_project_do_nothing (delete_notes_by_project_name db project_name) project_name"
  have kept: "tbl_notes ?db2 = filter (\<lambda>n. n_project_name n \<noteq> Some project_name) (tbl_notes db)"
    by (simp add: tbl_notes_insert_project_do_nothing delete_notes_by_project_name_def)
  from insert_all_succeeds [of ns env 0 ?db2 project_name] assms(2,3,4)
  obtain db' where "insert_all ?db2 env 0 project_name ns = (db', Inr ())"
    unfolding kept by auto
  then show ?thesis
    by (simp add: replace_all_notes_def Let_def assms(1))
qed

text \<open>
  A create succeeds when the values of the note fit their columns, the generated
  identifier is new and the project is either known under the default path or not known
  under any path.
\<close>

lemma create_note_succeeds:
  assumes "check_note_values (Some (sn_line_number note)) (sn_cwe note) (sn_severity note)
             (sn_source note) = None"
    and "str_uuid (fresh_uuid env) \<notin> set (map n_id (tbl_notes db))"
    and "(\<exists>p \<in> set (tbl_projects db). p_name p = sn_project_name note \<and> p_path p = Some ''/'')
         \<or> sn_project_name note \<notin> set (map p_name (tbl_projects db))"
  shows "\<exists>db'. create_note db env note
           = (db', Inr (note\<lparr>sn_id := Some (str_uuid (fresh_uuid env))\<rparr>))"
proof (cases "find (\<lambda>p. p_name p = sn_project_name note \<and> p_path p = Some ''/'')
                  (tbl_projects db)")
  case None
  then have "\<not> (\<exists>p \<in> set (tbl_projects db). p_name p = sn_project_name note \<and> p_path p = Some ''/'')"
    by (auto simp: find_None_iff)
  with assms(3) have new: "sn_project_name note \<notin> set (map p_name (tbl_projects db))"
    by blast
  let ?db1 = "db\<lparr>tbl_projects := tbl_projects db
                     @ [\<lparr>p_id = next_project_id db, p_name = sn_project_name note,
                         p_path = Some ''/''\<rparr>]\<rparr>"
  have proj: "insert_project db (sn_project_name note) (Some ''/'') = Inr (?db1, next_project_id db)"
    using new by (simp add: insert_project_def del: set_map)
  have "insert_note ?db1 (create_row env (next_project_id db) note)
      = Inr (?db1\<lparr>tbl_notes := tbl_notes ?db1 @ [create_row env (next_project_id db) note]\<rparr>)"
    using assms(1,2) by (simp add: insert_note_def create_row_def del: set_map)
  with None proj show ?thesis
    by (simp add: create_note_def)
next
  case (Some p)
  then have p: "p \<in> set (tbl_projects db)"
    by (auto simp: find_Some_iff)
  have "insert_note db (create_row env (p_id p) note)
      = Inr (db\<lparr>tbl_notes := tbl_notes db @ [create_row env (p_id p) note]\<rparr>)"
    using assms(1,2) p by (auto simp: insert_note_def create_row_def)
  with Some show ?thesis
    by (simp add: create_note_def)
qed

end
